theory Spec2Isabelle
  imports Main "HOL-Library.Word"
begin

section \<open>Data of lessor.go\<close>

text \<open>
  Go's \<open>uint64\<close> and \<open>int64\<close> are both 64-bit words: \<open>+\<close> and \<open>-\<close> wrap around,
  the conversions \<open>int64(x)\<close> and \<open>uint64(x)\<close> keep the bits. An unsigned comparison is
  the order of the word type, a signed one compares \<open>sint\<close>.
\<close>

type_synonym u64 = "64 word"
type_synonym i64 = "64 word"
type_synonym byte = "8 word"

type_synonym secret_key = "byte list"
type_synonym public_key = "byte list"
type_synonym address = "byte list"
type_synonym digest = "byte list"

definition waves :: u64 where
  "waves = 100000000"

definition defaultScheme :: string where
  "defaultScheme = ''http''"

definition standardFee :: u64 where
  "standardFee = 100000"

text \<open>The three sentinel errors \<open>run\<close> returns; \<open>None\<close> of \<open>run_error option\<close> is \<open>nil\<close>.\<close>

datatype run_error = errInvalidParameters | errUserTermination | errFailure

text \<open>
  An error value of a collaborator, as far as \<open>run\<close> looks at it:
  \<open>errors.Is(err, context.Canceled)\<close> holds exactly for \<open>ContextCanceled\<close>.
\<close>

datatype err = ContextCanceled | OtherErr

record feature =
  ID :: int
  Description :: string
  BlockchainStatus :: string
  NodeStatus :: string
  ActivationHeight :: int

record activationStatusResponse =
  Height :: int
  VotingInterval :: int
  VotingThreshold :: int
  NextCheck :: int
  Features :: "feature list"

record account =
  sk :: secret_key
  pk :: public_key
  addr :: address

text \<open>The zero values of the fixed-size byte arrays (32-byte keys, 26-byte address).\<close>

definition zero_key :: "byte list" where
  "zero_key = replicate 32 0"

definition zero_address :: address where
  "zero_address = replicate 26 0"

text \<open>
  The two transactions \<open>run\<close> builds. The transfer's asset arguments (\<open>na\<close>, \<open>na\<close>) and
  its \<open>nil\<close> attachment are constants of the source and are left out.
\<close>

datatype transaction =
    TransferWithProofs byte public_key u64 u64 u64 address
  | LeaseWithProofs byte public_key address u64 u64 u64

fun Version :: "transaction \<Rightarrow> byte" where
  "Version (TransferWithProofs v spk ts amount fee rcp) = v"
| "Version (LeaseWithProofs v spk rcp amount fee ts) = v"

fun Amount :: "transaction \<Rightarrow> u64" where
  "Amount (TransferWithProofs v spk ts amount fee rcp) = amount"
| "Amount (LeaseWithProofs v spk rcp amount fee ts) = amount"

fun is_lease :: "transaction \<Rightarrow> bool" where
  "is_lease (TransferWithProofs v spk ts amount fee rcp) = False"
| "is_lease (LeaseWithProofs v spk rcp amount fee ts) = True"

record url =
  Scheme :: string
  Rest :: string

text \<open>
  One answer of \<open>cl.Transactions.Info\<close>: the response pointer (\<open>None\<close> is \<open>nil\<close>,
  otherwise its \<open>StatusCode\<close>) and the error.
\<close>

record info_result =
  rsp :: "int option"
  info_err :: "err option"

text \<open>The command line flags, with the defaults of the source as \<open>default_flags\<close>.\<close>

record flags =
  nodeURL :: string
  generatorSK :: string
  lessorSK :: string
  lessorPK :: string
  leasingAddress :: string
  irreducibleBalance :: i64
  leasingThreshold :: i64
  transferOnly :: bool
  recipientAddress :: string
  dryRun :: bool
  testRun :: bool
  showHelp :: bool
  showVersion :: bool

definition default_flags :: flags where
  "default_flags = \<lparr> nodeURL = ''http://localhost:6869'', generatorSK = '''', lessorSK = '''',
     lessorPK = '''', leasingAddress = '''', irreducibleBalance = waves, leasingThreshold = 0,
     transferOnly = False, recipientAddress = '''', dryRun = False, testRun = False,
     showHelp = False, showVersion = False \<rparr>"

text \<open>
  Everything \<open>run\<close> calls that is not in lessor.go: the standard library, the gowaves
  packages and the node behind the client. Each field is what the call returns. The node
  is asked for a balance and for the script info twice (generator, then lessor), so these
  answers are indexed by the call; so is the clock. \<open>Transactions_Info id n\<close> is the
  answer to the \<open>n\<close>-th poll for \<open>id\<close>.
\<close>

record world =
  url_Parse :: "string \<Rightarrow> url option"
  url_String :: "url \<Rightarrow> string"
  NewSecretKeyFromBase58 :: "string \<Rightarrow> secret_key option"
  NewPublicKeyFromBase58 :: "string \<Rightarrow> public_key option"
  NewAddressFromString :: "string \<Rightarrow> address option"
  GeneratePublicKey :: "secret_key \<Rightarrow> public_key"
  NewAddressFromPublicKey :: "byte \<Rightarrow> public_key \<Rightarrow> address option"
  Sign :: "byte \<Rightarrow> secret_key \<Rightarrow> transaction \<Rightarrow> digest option"
  json_Marshal :: "transaction \<Rightarrow> string option"
  UnixNano :: "nat \<Rightarrow> i64"
  NewClient :: "string \<Rightarrow> err option"
  Blocks_Height :: "err option"
  Blocks_Last :: "err + byte"
  NewRequest :: "err option"
  Do_activation_status :: "err + activationStatusResponse"
  Addresses_BalanceDetails :: "nat \<Rightarrow> address \<Rightarrow> err + u64"
  Addresses_ScriptInfo :: "nat \<Rightarrow> address \<Rightarrow> err + u64"
  Transactions_Broadcast :: "transaction \<Rightarrow> err option"
  Transactions_Info :: "digest \<Rightarrow> nat \<Rightarrow> info_result"

section \<open>Effects: a trace of what the run does\<close>

text \<open>
  The events of a run, in order: every log line and every call of a collaborator. The two
  queries of a balance and of an extra fee carry the number of the query (0 for the
  generator, 1 for the lessor), as the answers of the node do; \<open>Call_track\<close> carries the
  transaction whose ID is tracked.
\<close>

datatype event =
    Log string
  | ShowUsage
  | PrintVersion
  | Call_nodeClient string
  | Call_getScheme
  | Call_isProtobufActivated
  | Call_getAvailableWavesBalance nat address
  | Call_getExtraFee nat address
  | Built transaction
  | Call_Sign transaction "digest option"
  | Call_Marshal transaction
  | Call_broadcast transaction
  | Call_track transaction digest

text \<open>
  How a piece of \<open>run\<close> ends when it does not fall through to the next statement:
  a \<open>return\<close>, a nil-pointer panic, or never (the polling loop of \<open>track\<close>).
\<close>

datatype exit = Return "run_error option" | Panic | Hang

type_synonym 'a step = "event list \<times> (exit + 'a)"

definition ret :: "'a \<Rightarrow> 'a step" where
  "ret a = ([], Inr a)"

definition emit :: "event \<Rightarrow> unit step" where
  "emit e = ([e], Inr ())"

definition log :: "string \<Rightarrow> unit step" where
  "log s = emit (Log s)"

definition leave :: "exit \<Rightarrow> 'a step" where
  "leave x = ([], Inl x)"

definition andThen :: "'a step \<Rightarrow> ('a \<Rightarrow> 'b step) \<Rightarrow> 'b step" where
  "andThen m f =
     (case snd m of
        Inl x \<Rightarrow> (fst m, Inl x)
      | Inr a \<Rightarrow> (fst m @ fst (f a), snd (f a)))"

definition seq :: "unit step \<Rightarrow> 'b step \<Rightarrow> 'b step" where
  "seq m k = andThen m (\<lambda>_. k)"

text \<open>\<open>log.Print(msg); return e\<close>\<close>

definition fail_with :: "string \<Rightarrow> run_error \<Rightarrow> 'a step" where
  "fail_with msg e = seq (log msg) (leave (Return (Some e)))"

text \<open>
  The handling of a failed network call, the same at every call site:
  \<open>if errors.Is(err, context.Canceled) { return errUserTermination }; log.Printf(msg); return errFailure\<close>
\<close>

definition on_error :: "string \<Rightarrow> err \<Rightarrow> 'a step" where
  "on_error msg e =
     (if e = ContextCanceled then leave (Return (Some errUserTermination))
      else fail_with msg errFailure)"

section \<open>The helper functions of lessor.go\<close>

definition accountFromSK :: "world \<Rightarrow> secret_key \<Rightarrow> byte \<Rightarrow> account option" where
  "accountFromSK w s scheme =
     (let p = GeneratePublicKey w s in
      case NewAddressFromPublicKey w scheme p of
        None \<Rightarrow> None
      | Some a \<Rightarrow> Some \<lparr> sk = s, pk = p, addr = a \<rparr>)"

definition accountFromSKAndDifferentPK ::
  "world \<Rightarrow> secret_key \<Rightarrow> public_key \<Rightarrow> byte \<Rightarrow> account option" where
  "accountFromSKAndDifferentPK w s p scheme =
     (case NewAddressFromPublicKey w scheme p of
        None \<Rightarrow> None
      | Some a \<Rightarrow> Some \<lparr> sk = s, pk = p, addr = a \<rparr>)"

definition accountFromAddress :: "address \<Rightarrow> account" where
  "accountFromAddress a = \<lparr> sk = zero_key, pk = zero_key, addr = a \<rparr>"

definition recipient :: "account \<Rightarrow> address" where
  "recipient a = addr a"

text \<open>\<open>strings.Contains\<close>\<close>

fun Contains :: "string \<Rightarrow> string \<Rightarrow> bool" where
  "Contains [] sub = (sub = [])"
| "Contains (c # cs) sub = (take (length sub) (c # cs) = sub \<or> Contains cs sub)"

definition normalizeURL :: "world \<Rightarrow> string \<Rightarrow> err + string" where
  "normalizeURL w s =
     (let s = (if \<not> Contains s ''//'' then ''//'' @ s else s) in
      case url_Parse w s of
        None \<Rightarrow> Inl OtherErr
      | Some u \<Rightarrow>
          (let u = (if Scheme u = '''' then u\<lparr>Scheme := defaultScheme\<rparr> else u) in
           if Scheme u \<noteq> ''http'' \<and> Scheme u \<noteq> ''https'' then Inl OtherErr
           else Inr (url_String w u)))"

definition nodeClient :: "world \<Rightarrow> string \<Rightarrow> err option" where
  "nodeClient w s =
     (case (if Contains s ''//'' then url_Parse w s else url_Parse w (''//'' @ s)) of
        None \<Rightarrow> Some OtherErr
      | Some u \<Rightarrow>
          (let u = (if Scheme u = '''' then u\<lparr>Scheme := defaultScheme\<rparr> else u) in
           if Scheme u \<noteq> ''http'' \<and> Scheme u \<noteq> ''https'' then Some OtherErr
           else case NewClient w (url_String w u) of
                  Some e \<Rightarrow> Some e
                | None \<Rightarrow> Blocks_Height w))"

definition getScheme :: "world \<Rightarrow> err + byte" where
  "getScheme w = Blocks_Last w"

text \<open>The loop of \<open>isProtobufActivated\<close> over \<open>resp.Features\<close>.\<close>

fun features_loop :: "feature list \<Rightarrow> bool" where
  "features_loop [] = False"
| "features_loop (f # fs) =
     (if ID f = 15 \<and> BlockchainStatus f = ''ACTIVATED''
         \<and> (NodeStatus f = ''IMPLEMENTED'' \<or> NodeStatus f = ''VOTED'')
      then True else features_loop fs)"

definition isProtobufActivated :: "world \<Rightarrow> err + bool" where
  "isProtobufActivated w =
     (case NewRequest w of
        Some e \<Rightarrow> Inl e
      | None \<Rightarrow>
          (case Do_activation_status w of
             Inl e \<Rightarrow> Inl e
           | Inr resp \<Rightarrow> Inr (features_loop (Features resp))))"

definition getAvailableWavesBalance :: "world \<Rightarrow> nat \<Rightarrow> address \<Rightarrow> err + u64" where
  "getAvailableWavesBalance w n a =
     (case Addresses_BalanceDetails w n a of Inl e \<Rightarrow> Inl e | Inr available \<Rightarrow> Inr available)"

definition getExtraFee :: "world \<Rightarrow> nat \<Rightarrow> address \<Rightarrow> err + u64" where
  "getExtraFee w n a =
     (case Addresses_ScriptInfo w n a of Inl e \<Rightarrow> Inl e | Inr extraFee \<Rightarrow> Inr extraFee)"

definition broadcast :: "world \<Rightarrow> transaction \<Rightarrow> err option" where
  "broadcast w tx = Transactions_Broadcast w tx"

text \<open>\<open>uint64(time.Now().UnixNano()) / 1000000\<close>, at the \<open>n\<close>-th reading of the clock.\<close>

definition timestamp :: "world \<Rightarrow> nat \<Rightarrow> u64" where
  "timestamp w n = UnixNano w n div 1000000"

subsection \<open>track\<close>

text \<open>
  The \<open>for\<close> loop of \<open>track\<close> has no bound, so it is a partial function: \<open>None\<close> is a
  loop that never ends. Reading \<open>rsp.StatusCode\<close> through a nil \<open>rsp\<close> panics.
\<close>

datatype track_end = TrackReturn "err option" | TrackPanic

partial_function (option) track_loop :: "(nat \<Rightarrow> info_result) \<Rightarrow> nat \<Rightarrow> track_end option" where
  "track_loop info n =
     (if info_err (info n) = Some ContextCanceled then Some (TrackReturn (info_err (info n)))
      else case rsp (info n) of
             None \<Rightarrow> Some TrackPanic
           | Some StatusCode \<Rightarrow>
               if StatusCode = 200 then Some (TrackReturn None)
               else track_loop info (Suc n))"

declare track_loop.simps [code]

definition track :: "world \<Rightarrow> digest \<Rightarrow> (err option) step" where
  "track w i =
     seq (log ''[INFO] Waiting for transaction '%s' on blockchain...'')
       (case track_loop (Transactions_Info w i) 0 of
          None \<Rightarrow> leave Hang
        | Some TrackPanic \<Rightarrow> leave Panic
        | Some (TrackReturn e) \<Rightarrow> ret e)"

section \<open>run\<close>

text \<open>
  \<open>run\<close> is one long function in the source. It is cut here at its own numbered
  comments into pieces that are chained by \<open>andThen\<close>; every \<open>return\<close> of the source is
  a \<open>leave\<close>. A log line is recorded by its format string (without the quote
  that two of them end with).
\<close>

record params =
  p_nodeURL :: string
  gSK :: secret_key
  lSK :: secret_key
  differentLessorPK :: "public_key option"
  leasingAddr :: "address option"
  transferRecipientAddress :: address

text \<open>Lines 178 to 221: the keys and addresses of the chosen mode.\<close>

definition parse_mode ::
  "flags \<Rightarrow> world \<Rightarrow> (secret_key \<times> public_key option \<times> address option \<times> address) step" where
  "parse_mode c w =
     (if transferOnly c then
        seq (log ''[INFO] Transfer only mode activated'')
          (if recipientAddress c = '''' then
             fail_with ''[ERROR] Empty recipient address. Please, provide the correct recipient address.''
               errInvalidParameters
           else case NewAddressFromString w (recipientAddress c) of
                  None \<Rightarrow>
                    fail_with ''[ERROR] Invalid transfer recipient address '%s': %v'' errInvalidParameters
                | Some a \<Rightarrow> ret (zero_key, None, None, a))
      else if lessorSK c = '''' then
        fail_with ''[ERROR] Empty lessor private key. Please, provide correct lessor private key.''
          errInvalidParameters
      else case NewSecretKeyFromBase58 w (lessorSK c) of
             None \<Rightarrow> fail_with ''[ERROR] Invalid lessor private key '%s': %v'' errInvalidParameters
           | Some l \<Rightarrow>
               andThen
                 (if lessorPK c = '''' then
                    seq (log ''[INFO] No different lessor public key is given'') (ret None)
                  else case NewPublicKeyFromBase58 w (lessorPK c) of
                         None \<Rightarrow>
                           fail_with ''[ERROR] Failed to parse additional lessor public key'%s': %v''
                             errFailure
                       | Some p \<Rightarrow> ret (Some p))
                 (\<lambda>dpk.
                    andThen
                      (if leasingAddress c = '''' then
                         seq (log ''[INFO] No different leasing address is given'') (ret None)
                       else case NewAddressFromString w (leasingAddress c) of
                              None \<Rightarrow> fail_with ''[ERROR] Invalid leasing address '%s': %v'' errFailure
                            | Some a \<Rightarrow> ret (Some a))
                      (\<lambda>la. ret (l, dpk, la, zero_address))))"

text \<open>
  Lines 144 to 234. After a failed \<open>normalizeURL\<close> the source logs the error and goes
  on with the empty string that \<open>normalizeURL\<close> returned.
\<close>

definition parse_flags :: "flags \<Rightarrow> world \<Rightarrow> params step" where
  "parse_flags c w =
     (if showHelp c then seq (emit ShowUsage) (leave (Return None))
      else if showVersion c then seq (emit PrintVersion) (leave (Return None))
      else if nodeURL c = '''' then
        fail_with ''[ERROR] Empty node's URL. Please, provide correct URL to node.''
          errInvalidParameters
      else
        andThen
          (case normalizeURL w (nodeURL c) of
             Inl e \<Rightarrow> seq (log ''[ERROR] Invalid node's URL '%s': %v'') (ret '''')
           | Inr u \<Rightarrow> ret u)
          (\<lambda>u.
             if generatorSK c = '''' then
               fail_with
                 ''[ERROR] Empty generating account private key. Please, provide the correct private key.''
                 errInvalidParameters
             else case NewSecretKeyFromBase58 w (generatorSK c) of
                    None \<Rightarrow>
                      fail_with ''[ERROR] Invalid generating account private key '%s': %v''
                        errInvalidParameters
                  | Some g \<Rightarrow>
                      andThen (parse_mode c w)
                        (\<lambda>(l, dpk, la, tra).
                           if sint (irreducibleBalance c) < 0 then
                             fail_with ''[ERROR] Invalid irreducible balance value %d''
                               errInvalidParameters
                           else
                             seq (if 0 < sint (irreducibleBalance c)
                                  then log ''[INFO] Accounts irreducible balance set to %s''
                                  else ret ())
                               (seq (if testRun c
                                     then log ''[INFO] TEST-RUN: Available balance will be limited to %s''
                                     else ret ())
                                  (seq (if dryRun c
                                        then log ''[INFO] DRY-RUN: No actual transactions will be created''
                                        else ret ())
                                     (ret \<lparr> p_nodeURL = u, gSK = g, lSK = l,
                                            differentLessorPK = dpk, leasingAddr = la,
                                            transferRecipientAddress = tra \<rparr>))))))"

text \<open>Lines 239 to 248: 1. Check connection to node's API.\<close>

definition connect :: "world \<Rightarrow> string \<Rightarrow> unit step" where
  "connect w u =
     seq (emit (Call_nodeClient u))
       (case nodeClient w u of
          Some e \<Rightarrow> on_error ''[ERROR] Failed to connect to node at '%s': %v'' e
        | None \<Rightarrow> log ''[INFO] Successfully connected to %s'')"

text \<open>Lines 250 to 272: 2. the network scheme and the version of the transactions.\<close>

definition chain_facts :: "world \<Rightarrow> (byte \<times> byte) step" where
  "chain_facts w =
     seq (emit Call_getScheme)
       (case getScheme w of
          Inl e \<Rightarrow> on_error ''[ERROR] Failed to aquire blockchain scheme: %v'' e
        | Inr scheme \<Rightarrow>
            seq (log ''[INFO] Blockchain scheme: %s'')
              (seq (emit Call_isProtobufActivated)
                 (case isProtobufActivated w of
                    Inl e \<Rightarrow> on_error ''[ERROR] Failed to check Protobuf activation status: %v'' e
                  | Inr protobuf \<Rightarrow>
                      (let txVer = (if protobuf then 3 else 2) in
                       seq (log ''[INFO] Version of transactions to produce: %d'')
                         (ret (scheme, txVer))))))"

text \<open>Lines 274 to 312: 3. the accounts.\<close>

definition zero_account :: account where
  "zero_account = \<lparr> sk = zero_key, pk = zero_key, addr = zero_address \<rparr>"

definition accounts ::
  "flags \<Rightarrow> world \<Rightarrow> params \<Rightarrow> byte \<Rightarrow> (account \<times> account \<times> account \<times> account) step" where
  "accounts c w p scheme =
     (case accountFromSK w (gSK p) scheme of
        None \<Rightarrow> fail_with ''[ERROR] Failed to create generator's account: %v'' errFailure
      | Some generator \<Rightarrow>
          seq (log ''[INFO] Generating address: %s'')
            (if transferOnly c then
               (let transferRecipient = accountFromAddress (transferRecipientAddress p) in
                seq (log ''[INFO] Transfer recipient address: %s'')
                  (ret (generator, transferRecipient, zero_account, zero_account)))
             else
               andThen
                 (case differentLessorPK p of
                    Some dpk \<Rightarrow>
                      (case accountFromSKAndDifferentPK w (lSK p) dpk scheme of
                         None \<Rightarrow> fail_with ''[ERROR] Failed to create lessor account: %v'' errFailure
                       | Some l \<Rightarrow> ret l)
                  | None \<Rightarrow>
                      (case accountFromSK w (lSK p) scheme of
                         None \<Rightarrow> fail_with ''[ERROR] Failed to create lessor account: %v'' errFailure
                       | Some l \<Rightarrow> ret l))
                 (\<lambda>lessor.
                    let transferRecipient = lessor;
                        leasingRecipient =
                          (case leasingAddr p of
                             Some a \<Rightarrow> accountFromAddress a
                           | None \<Rightarrow> generator)
                    in seq (log ''[INFO] Lessor address: %s'')
                         (seq (log ''[INFO] Lessor public key: %s'')
                            (seq (log ''[INFO] Leasing to address: %s'')
                               (ret (generator, transferRecipient, lessor, leasingRecipient)))))))"

subsection \<open>The amounts of the transfer and of the lease\<close>

text \<open>
  Lines 324 to 331 and again 408 to 415:
  \<open>if irreducibleBalance > 0 { b := int64(balance) - irreducibleBalance;
     if b > 0 { balance = uint64(b) } else { balance = 0 } }\<close>
\<close>

definition reserve :: "i64 \<Rightarrow> u64 \<Rightarrow> u64" where
  "reserve irreducible balance =
     (if 0 < sint irreducible then
        (let b = balance - irreducible in if 0 < sint b then b else 0)
      else balance)"

text \<open>Lines 336 to 338 and 420 to 422: \<open>if balance > waves && testRun { balance = waves }\<close>\<close>

definition limit :: "bool \<Rightarrow> u64 \<Rightarrow> u64" where
  "limit test balance = (if waves < balance \<and> test then waves else balance)"

text \<open>Lines 314 to 339: 4. the balance of the generating account.\<close>

definition generator_balance :: "flags \<Rightarrow> world \<Rightarrow> account \<Rightarrow> u64 step" where
  "generator_balance c w generator =
     seq (emit (Call_getAvailableWavesBalance 0 (addr generator)))
       (case getAvailableWavesBalance w 0 (addr generator) of
          Inl e \<Rightarrow> on_error ''[ERROR] Failed to get generator WAVES balance: %v'' e
        | Inr balance \<Rightarrow>
            seq (log ''[INFO] Balance of generation account '%s': %s'')
              (let balance = reserve (irreducibleBalance c) balance in
               if balance \<le> standardFee then
                 fail_with ''[ERROR] Not enough balance on generator's account'' errFailure
               else
                 (let balance = limit (testRun c) balance in
                  seq (log ''[INFO] Balance available for transfer: %s'') (ret balance))))"

text \<open>
  Lines 341 to 360: 5. the extra fee, the fee and the amount of the transfer.
  \<open>amount\<close> is a \<open>uint64\<close>, so \<open>amount <= 0\<close> is an unsigned comparison.
\<close>

definition transfer_amount :: "world \<Rightarrow> account \<Rightarrow> u64 \<Rightarrow> (u64 \<times> u64) step" where
  "transfer_amount w generator balance =
     seq (emit (Call_getExtraFee 0 (addr generator)))
       (case getExtraFee w 0 (addr generator) of
          Inl e \<Rightarrow> on_error ''[ERROR] Failed to check extra fee on account '%s': %v'' e
        | Inr transferExtraFee \<Rightarrow>
            seq (if transferExtraFee \<noteq> 0 then log ''[INFO] Extra fee on transfer: %s''
                 else log ''[INFO] No extra fee on transfer'')
              (let fee = standardFee + transferExtraFee;
                   amount = balance - fee
               in if amount \<le> 0 then
                    fail_with ''[ERROR] Negative of zero amount to transfer'' errFailure
                  else ret (amount, fee)))"

text \<open>Lines 398 to 423: 6. the balance of the lessor's account.\<close>

definition lessor_balance :: "flags \<Rightarrow> world \<Rightarrow> account \<Rightarrow> u64 step" where
  "lessor_balance c w lessor =
     seq (emit (Call_getAvailableWavesBalance 1 (addr lessor)))
       (case getAvailableWavesBalance w 1 (addr lessor) of
          Inl e \<Rightarrow> on_error ''[ERROR] Failed to get lessor account's WAVES balance: %v'' e
        | Inr balance \<Rightarrow>
            seq (log ''[INFO] Balance of lessor account '%s': %s'')
              (let balance = reserve (irreducibleBalance c) balance in
               if balance \<le> standardFee then
                 fail_with ''[ERROR] Not enough balance on lessor's account'' errFailure
               else
                 (let balance = limit (testRun c) balance in
                  seq (log ''[INFO] Balance available for leasing: %s'') (ret balance))))"

text \<open>Lines 425 to 444: 7. the extra fee, the fee and the amount of the lease.\<close>

definition lease_amount :: "world \<Rightarrow> account \<Rightarrow> u64 \<Rightarrow> (u64 \<times> u64) step" where
  "lease_amount w lessor balance =
     seq (emit (Call_getExtraFee 1 (addr lessor)))
       (case getExtraFee w 1 (addr lessor) of
          Inl e \<Rightarrow> on_error ''[ERROR] Failed to check extra fee on account '%s': %v'' e
        | Inr leaseExtraFee \<Rightarrow>
            seq (if leaseExtraFee \<noteq> 0 then log ''[INFO] Extra fee on lease: %s''
                 else log ''[INFO] No extra fee on lease'')
              (let fee = standardFee + leaseExtraFee;
                   amount = balance - fee
               in if amount \<le> 0 then
                    fail_with ''[ERROR] Negative of zero amount to lease'' errFailure
                  else ret (amount, fee)))"

subsection \<open>Building, signing and sending\<close>

text \<open>
  Lines 361 to 392. \<open>Sign\<close> gives the transaction its ID; the event records the call
  together with its result. The log line of a dry run is recorded with its argument,
  the JSON text that \<open>json.Marshal\<close> returned.
\<close>

definition send_transfer ::
  "flags \<Rightarrow> world \<Rightarrow> byte \<Rightarrow> byte \<Rightarrow> account \<Rightarrow> account \<Rightarrow> u64 \<Rightarrow> u64 \<Rightarrow> unit step" where
  "send_transfer c w scheme txVer generator transferRecipient amount fee =
     (let transfer = TransferWithProofs txVer (pk generator) (timestamp w 0) amount fee
                       (recipient transferRecipient)
      in seq (emit (Built transfer))
           (seq (emit (Call_Sign transfer (Sign w scheme (sk generator) transfer)))
              (case Sign w scheme (sk generator) transfer of
                 None \<Rightarrow> fail_with ''[ERROR] Failed to sign transfer transaction: %v'' errFailure
               | Some tid \<Rightarrow>
                   if dryRun c then
                     seq (emit (Call_Marshal transfer))
                       (case json_Marshal w transfer of
                          None \<Rightarrow>
                            fail_with ''[ERROR] Failed to make transaction json: %v'' errFailure
                        | Some b \<Rightarrow> log (''[INFO] Transfer transaction:'' @ [CHR 0x0A] @ b))
                   else
                     seq (log ''[INFO] Transfer transaction ID: %s'')
                       (seq (emit (Call_broadcast transfer))
                          (case broadcast w transfer of
                             Some e \<Rightarrow>
                               on_error ''[ERROR] Failed to broadcast transfer transaction: %v'' e
                           | None \<Rightarrow>
                               seq (emit (Call_track transfer tid))
                                 (andThen (track w tid)
                                    (\<lambda>r. case r of
                                            Some e \<Rightarrow>
                                              on_error
                                                ''[ERROR] Failed to track transfer transaction: %v'' e
                                          | None \<Rightarrow> ret ())))))))"

text \<open>
  Lines 445 to 482: the leasing threshold, then the lease. \<open>leasingThreshold\<close> is an
  \<open>int64\<close>; the amount is compared with \<open>uint64(leasingThreshold)\<close>. The lease is signed
  with \<open>lSK\<close>, not with the key of the lessor account.
\<close>

definition send_lease ::
  "flags \<Rightarrow> world \<Rightarrow> byte \<Rightarrow> byte \<Rightarrow> secret_key \<Rightarrow> account \<Rightarrow> account \<Rightarrow> u64 \<Rightarrow> u64 \<Rightarrow> unit step"
  where
  "send_lease c w scheme txVer lsk lessor leasingRecipient amount fee =
     (if 0 < sint (leasingThreshold c) \<and> amount < leasingThreshold c then
        seq (log ''[INFO] Leasing amount %d is less than threshold %d'') (leave (Return None))
      else
        (let lease = LeaseWithProofs txVer (pk lessor) (recipient leasingRecipient) amount fee
                       (timestamp w 1)
         in seq (emit (Built lease))
              (seq (emit (Call_Sign lease (Sign w scheme lsk lease)))
                 (case Sign w scheme lsk lease of
                    None \<Rightarrow> fail_with ''[ERROR] Failed to sign lease transaction: %v'' errFailure
                  | Some lid \<Rightarrow>
                      if dryRun c then
                        seq (emit (Call_Marshal lease))
                          (case json_Marshal w lease of
                             None \<Rightarrow>
                               fail_with ''[ERROR] Failed to make transaction json: %v'' errFailure
                           | Some b \<Rightarrow> log (''[INFO] Lease transaction:'' @ [CHR 0x0A] @ b))
                      else
                        seq (log ''[INFO] Lease transaction ID: %s'')
                          (seq (emit (Call_broadcast lease))
                             (case broadcast w lease of
                                Some e \<Rightarrow>
                                  on_error ''[ERROR] Failed to broadcast lease transaction: %v'' e
                              | None \<Rightarrow>
                                  seq (emit (Call_track lease lid))
                                    (andThen (track w lid)
                                       (\<lambda>r. case r of
                                               Some e \<Rightarrow>
                                                 on_error
                                                   ''[ERROR] Failed to track lease transaction: %v'' e
                                             | None \<Rightarrow> ret ()))))))))"

subsection \<open>The whole of run, and main\<close>

text \<open>Lines 239 to 392: everything from the connection to the end of the transfer.\<close>

record accounts_of_run =
  r_scheme :: byte
  r_txVer :: byte
  r_lSK :: secret_key
  r_lessor :: account
  r_leasingRecipient :: account

definition transfer_phase :: "flags \<Rightarrow> world \<Rightarrow> params \<Rightarrow> accounts_of_run step" where
  "transfer_phase c w p =
     seq (connect w (p_nodeURL p))
       (andThen (chain_facts w)
          (\<lambda>(scheme, txVer).
             andThen (accounts c w p scheme)
               (\<lambda>(generator, transferRecipient, lessor, leasingRecipient).
                  andThen (generator_balance c w generator)
                    (\<lambda>balance.
                       andThen (transfer_amount w generator balance)
                         (\<lambda>(amount, fee).
                            seq (send_transfer c w scheme txVer generator transferRecipient
                                   amount fee)
                              (ret \<lparr> r_scheme = scheme, r_txVer = txVer, r_lSK = lSK p,
                                     r_lessor = lessor,
                                     r_leasingRecipient = leasingRecipient \<rparr>))))))"

text \<open>Lines 398 to 484: everything after the early exit of the transfer-only mode.\<close>

definition lease_phase :: "flags \<Rightarrow> world \<Rightarrow> accounts_of_run \<Rightarrow> unit step" where
  "lease_phase c w r =
     andThen (lessor_balance c w (r_lessor r))
       (\<lambda>balance.
          andThen (lease_amount w (r_lessor r) balance)
            (\<lambda>(amount, fee).
               seq (send_lease c w (r_scheme r) (r_txVer r) (r_lSK r) (r_lessor r)
                      (r_leasingRecipient r) amount fee)
                 (seq (log ''[INFO] OK'') (leave (Return None)))))"

definition run_steps :: "flags \<Rightarrow> world \<Rightarrow> unit step" where
  "run_steps c w =
     andThen (parse_flags c w)
       (\<lambda>p. andThen (transfer_phase c w p)
               (\<lambda>r. if transferOnly c then seq (log ''[INFO] OK'') (leave (Return None))
                     else lease_phase c w r))"

text \<open>What \<open>run\<close> did and how it ended.\<close>

definition run :: "flags \<Rightarrow> world \<Rightarrow> event list \<times> exit" where
  "run c w =
     (case snd (run_steps c w) of
        Inl x \<Rightarrow> (fst (run_steps c w), x)
      | Inr u \<Rightarrow> (fst (run_steps c w), Return None))"

text \<open>
  \<open>main\<close>: the exit status of the process. Returning from \<open>main\<close> is status 0. The
  \<open>default: os.Exit(1)\<close> of the source is for an error that is none of the three
  sentinels, which \<open>run\<close> never returns.
\<close>

datatype process_end = Exit nat | Crash | Never

definition main :: "flags \<Rightarrow> world \<Rightarrow> event list \<times> process_end" where
  "main c w =
     (case run c w of
        (t, Return None) \<Rightarrow> (t, Exit 0)
      | (t, Return (Some errInvalidParameters)) \<Rightarrow> (t @ [ShowUsage], Exit 2)
      | (t, Return (Some errUserTermination)) \<Rightarrow> (t, Exit 130)
      | (t, Return (Some errFailure)) \<Rightarrow> (t, Exit 70)
      | (t, Panic) \<Rightarrow> (t, Crash)
      | (t, Hang) \<Rightarrow> (t, Never))"

section \<open>Properties of traces and results\<close>

text \<open>
  Both \<open>Not enough balance\<close> returns and both \<open>Negative of zero amount\<close> returns give
  \<open>errFailure\<close>; they differ in the line logged just before.
\<close>

definition not_enough_balance :: "'a step \<Rightarrow> bool" where
  "not_enough_balance m \<longleftrightarrow>
     snd m = Inl (Return (Some errFailure)) \<and> fst m \<noteq> [] \<and>
     (last (fst m) = Log ''[ERROR] Not enough balance on generator's account'' \<or>
      last (fst m) = Log ''[ERROR] Not enough balance on lessor's account'')"

definition nonpositive_amount :: "'a step \<Rightarrow> bool" where
  "nonpositive_amount m \<longleftrightarrow>
     snd m = Inl (Return (Some errFailure)) \<and> fst m \<noteq> [] \<and>
     (last (fst m) = Log ''[ERROR] Negative of zero amount to transfer'' \<or>
      last (fst m) = Log ''[ERROR] Negative of zero amount to lease'')"

text \<open>Events that touch neither an account of the node nor a transaction.\<close>

fun quiet :: "event \<Rightarrow> bool" where
  "quiet (Log s) = True"
| "quiet ShowUsage = True"
| "quiet PrintVersion = True"
| "quiet (Call_nodeClient u) = True"
| "quiet Call_getScheme = True"
| "quiet Call_isProtobufActivated = True"
| "quiet e = False"

text \<open>Events of the calls that go to the node.\<close>

fun network :: "event \<Rightarrow> bool" where
  "network (Log s) = False"
| "network ShowUsage = False"
| "network PrintVersion = False"
| "network (Built tx) = False"
| "network (Call_Sign tx r) = False"
| "network (Call_Marshal tx) = False"
| "network e = True"

text \<open>
  Events of steps 6 and 7: the second query of a balance and of an extra fee, and
  everything done with a lease transaction.
\<close>

fun lease_event :: "event \<Rightarrow> bool" where
  "lease_event (Call_getAvailableWavesBalance n a) = (n \<noteq> 0)"
| "lease_event (Call_getExtraFee n a) = (n \<noteq> 0)"
| "lease_event (Built tx) = is_lease tx"
| "lease_event (Call_Sign tx r) = is_lease tx"
| "lease_event (Call_Marshal tx) = is_lease tx"
| "lease_event (Call_broadcast tx) = is_lease tx"
| "lease_event (Call_track tx i) = is_lease tx"
| "lease_event e = False"

fun sends :: "event \<Rightarrow> bool" where
  "sends (Call_broadcast tx) = True"
| "sends (Call_track tx i) = True"
| "sends e = False"


text \<open>The log line that shows the JSON text \<open>b\<close> of a transaction in a dry run.\<close>

definition render_line :: "transaction \<Rightarrow> string \<Rightarrow> event" where
  "render_line tx b =
     Log ((if is_lease tx then ''[INFO] Lease transaction:'' else ''[INFO] Transfer transaction:'')
          @ [CHR 0x0A] @ b)"

text \<open>
  Every transaction that was signed with success in the trace \<open>t\<close> was also given to
  \<open>json.Marshal\<close>; where that returns a JSON text the text is logged, and where it fails
  the condition \<open>failed\<close> holds (the run has returned \<open>errFailure\<close>).
\<close>

definition signed_rendered :: "world \<Rightarrow> event list \<Rightarrow> bool \<Rightarrow> bool" where
  "signed_rendered w t failed \<longleftrightarrow>
     (\<forall>e \<in> set t. case e of
                     Call_Sign tx (Some i) \<Rightarrow>
                       Call_Marshal tx \<in> set t \<and>
                       (case json_Marshal w tx of
                          Some b \<Rightarrow> render_line tx b \<in> set t
                        | None \<Rightarrow> failed)
                   | _ \<Rightarrow> True)"

text \<open>What one answer of the transaction lookup means to \<open>track\<close>.\<close>

definition cancelled :: "info_result \<Rightarrow> bool" where
  "cancelled r \<longleftrightarrow> info_err r = Some ContextCanceled"

definition found :: "info_result \<Rightarrow> bool" where
  "found r \<longleftrightarrow> \<not> cancelled r \<and> rsp r = Some 200"

definition not_yet_found :: "info_result \<Rightarrow> bool" where
  "not_yet_found r \<longleftrightarrow>
     \<not> cancelled r \<and> (case rsp r of None \<Rightarrow> False | Some StatusCode \<Rightarrow> StatusCode \<noteq> 200)"

definition no_response :: "info_result \<Rightarrow> bool" where
  "no_response r \<longleftrightarrow> \<not> cancelled r \<and> rsp r = None"

text \<open>
  Events of the steps that ask the node about an account: quiet ones and the \<open>n\<close>-th
  query of a balance or of an extra fee.
\<close>

fun query :: "nat \<Rightarrow> event \<Rightarrow> bool" where
  "query n (Call_getAvailableWavesBalance m a) = (m = n)"
| "query n (Call_getExtraFee m a) = (m = n)"
| "query n e = quiet e"

text \<open>Every event of a step satisfies \<open>P\<close>.\<close>

definition every :: "(event \<Rightarrow> bool) \<Rightarrow> 'a step \<Rightarrow> bool" where
  "every P m \<longleftrightarrow> (\<forall>e \<in> set (fst m). P e)"

text \<open>A step of a dry run: nothing is sent, and what was signed was rendered.\<close>

definition dry_step :: "world \<Rightarrow> 'a step \<Rightarrow> bool" where
  "dry_step w m \<longleftrightarrow>
     (\<forall>e \<in> set (fst m). \<not> sends e) \<and>
     signed_rendered w (fst m) (snd m = Inl (Return (Some errFailure)))"

section \<open>A node for the examples\<close>

text \<open>
  A world in which every call succeeds: the node at \<open>http://localhost:6869\<close> answers,
  feature 15 is activated, the generator has the available balance \<open>b0\<close> and the extra
  fee \<open>e0\<close>, the lessor \<open>b1\<close> and \<open>e1\<close>, and a transaction is found at the third poll.
\<close>

definition example_world :: "u64 \<Rightarrow> u64 \<Rightarrow> u64 \<Rightarrow> u64 \<Rightarrow> world" where
  "example_world b0 e0 b1 e1 =
     \<lparr> url_Parse = (\<lambda>s. if take 2 s = ''//'' then Some \<lparr> Scheme = '''', Rest = s \<rparr>
                        else Some \<lparr> Scheme = takeWhile (\<lambda>c. c \<noteq> CHR '':'') s,
                                    Rest = drop 1 (dropWhile (\<lambda>c. c \<noteq> CHR '':'') s) \<rparr>),
       url_String = (\<lambda>u. Scheme u @ '':'' @ Rest u),
       NewSecretKeyFromBase58 = (\<lambda>s. if s = ''generator'' then Some [1]
                                      else if s = ''lessor'' then Some [2] else None),
       NewPublicKeyFromBase58 = (\<lambda>s. if s = ''other'' then Some [3] else None),
       NewAddressFromString = (\<lambda>s. if s = ''address'' then Some [4] else None),
       GeneratePublicKey = (\<lambda>k. 10 # k),
       NewAddressFromPublicKey = (\<lambda>scheme p. Some (scheme # p)),
       Sign = (\<lambda>scheme k tx. Some (Version tx # k)),
       json_Marshal = (\<lambda>tx. Some ''{}''),
       UnixNano = (\<lambda>n. 1700000000000000000),
       NewClient = (\<lambda>u. if u = ''http://localhost:6869'' then None else Some OtherErr),
       Blocks_Height = None,
       Blocks_Last = Inr 87,
       NewRequest = None,
       Do_activation_status =
         Inr \<lparr> Height = 1, VotingInterval = 1, VotingThreshold = 1, NextCheck = 1,
               Features = [\<lparr> ID = 15, Description = ''Ride V4'', BlockchainStatus = ''ACTIVATED'',
                              NodeStatus = ''IMPLEMENTED'', ActivationHeight = 1 \<rparr>] \<rparr>,
       Addresses_BalanceDetails = (\<lambda>n a. Inr (if n = 0 then b0 else b1)),
       Addresses_ScriptInfo = (\<lambda>n a. Inr (if n = 0 then e0 else e1)),
       Transactions_Broadcast = (\<lambda>tx. None),
       Transactions_Info =
         (\<lambda>i n. if n < 2 then \<lparr> rsp = Some 404, info_err = Some OtherErr \<rparr>
                 else \<lparr> rsp = Some 200, info_err = None \<rparr>) \<rparr>"

definition example_flags :: flags where
  "example_flags = default_flags \<lparr> generatorSK := ''generator'', lessorSK := ''lessor'' \<rparr>"

text \<open>
  Three other nodes: one that never finds the transaction, one that cannot be reached
  (a transport error, no response), and one whose second poll is cancelled.
\<close>

definition never_found :: "digest \<Rightarrow> nat \<Rightarrow> info_result" where
  "never_found i n = \<lparr> rsp = Some 404, info_err = Some OtherErr \<rparr>"

definition transport_error :: "digest \<Rightarrow> nat \<Rightarrow> info_result" where
  "transport_error i n = \<lparr> rsp = None, info_err = Some OtherErr \<rparr>"

definition cancelled_at_second :: "digest \<Rightarrow> nat \<Rightarrow> info_result" where
  "cancelled_at_second i n =
     (if n < 1 then \<lparr> rsp = Some 404, info_err = Some OtherErr \<rparr>
      else \<lparr> rsp = None, info_err = Some ContextCanceled \<rparr>)"

section \<open>Lemmas on the steps and on 64-bit arithmetic\<close>

lemmas step_defs = andThen_def seq_def ret_def emit_def log_def leave_def fail_with_def on_error_def

lemma uint_u64_less: "uint (x::64 word) < 18446744073709551616"
  using uint_bounded[of x] by simp

lemma sint_u64:
  "sint (x::64 word) =
     (if uint x < 9223372036854775808 then uint x else uint x - 18446744073709551616)"
proof -
  have ub: "uint x < 18446744073709551616" by (rule uint_u64_less)
  have lb: "0 \<le> uint x" by simp
  have s: "sint x = (uint x + 9223372036854775808) mod 18446744073709551616 - 9223372036854775808"
    by (simp add: sint_uint signed_take_bit_eq_take_bit_shift take_bit_eq_mod)
  show ?thesis
  proof (cases "uint x < 9223372036854775808")
    case True
    have "(uint x + 9223372036854775808) mod 18446744073709551616 = uint x + 9223372036854775808"
      by (rule mod_pos_pos_trivial) (use True lb in linarith)+
    then show ?thesis using s True by simp
  next
    case False
    have e: "uint x + 9223372036854775808 = (uint x - 9223372036854775808) + 18446744073709551616"
      by linarith
    have "(uint x + 9223372036854775808) mod 18446744073709551616
          = ((uint x - 9223372036854775808) + 18446744073709551616) mod 18446744073709551616"
      by (rule arg_cong [OF e])
    also have "\<dots> = (uint x - 9223372036854775808) mod 18446744073709551616"
      by (rule mod_add_self2)
    also have "\<dots> = uint x - 9223372036854775808"
      by (rule mod_pos_pos_trivial) (use False ub in linarith)+
    finally show ?thesis using s False by simp
  qed
qed

lemma uint_sub_u64:
  "uint (x - y :: 64 word) = (if uint y \<le> uint x then uint x - uint y else uint x - uint y + 2^64)"
  using uint_sub_if_size[of x y] by (simp add: word_size)

lemma uint_add_u64:
  "uint (x + y :: 64 word) = (if uint x + uint y < 2^64 then uint x + uint y else uint x + uint y - 2^64)"
  using uint_plus_if_size[of x y] by (simp add: word_size)

lemma sint_pos_iff: "0 < sint (x::64 word) \<longleftrightarrow> 0 < uint x \<and> uint x < 2^63"
  using uint_u64_less[of x] by (simp add: sint_u64)

lemma sint_nonneg_iff: "0 \<le> sint (x::64 word) \<longleftrightarrow> uint x < 2^63"
  using uint_u64_less[of x] by (simp add: sint_u64)

lemma sint_neg_iff: "sint (x::64 word) < 0 \<longleftrightarrow> 2^63 \<le> uint x"
  using uint_u64_less[of x] by (simp add: sint_u64)

lemma reserve_int:
  "uint (reserve irr raw) =
     (if 0 < uint irr \<and> uint irr < 2^63 then
        (if uint irr < uint raw \<and> uint raw - uint irr < 2^63 then uint raw - uint irr else 0)
      else uint raw)"
proof (cases "0 < sint irr")
  case False
  then have "reserve irr raw = raw" by (simp add: reserve_def)
  moreover have "\<not> (0 < uint irr \<and> uint irr < 2^63)" using False by (simp add: sint_pos_iff)
  ultimately show ?thesis by (simp only: if_False)
next
  case True
  then have i: "0 < uint irr" "uint irr < 9223372036854775808" by (simp_all add: sint_pos_iff)
  have b: "0 \<le> uint raw" "uint raw < 18446744073709551616" by (simp_all add: uint_u64_less)
  show ?thesis
  proof (cases "uint irr < uint raw \<and> uint raw - uint irr < 9223372036854775808")
    case yes: True
    then have "uint (raw - irr) = uint raw - uint irr" by (simp add: uint_sub_u64)
    then have "0 < sint (raw - irr)" using yes by (simp add: sint_pos_iff)
    then show ?thesis
      using True yes i \<open>uint (raw - irr) = uint raw - uint irr\<close>
      by (simp add: reserve_def Let_def)
  next
    case no: False
    have "\<not> 0 < sint (raw - irr)"
    proof (cases "uint irr \<le> uint raw")
      case le: True
      then have u: "uint (raw - irr) = uint raw - uint irr" by (simp add: uint_sub_u64)
      have "uint raw - uint irr = 0 \<or> 9223372036854775808 \<le> uint raw - uint irr"
        using no le by linarith
      then show ?thesis using u by (auto simp: sint_pos_iff)
    next
      case gt: False
      then have u: "uint (raw - irr) = uint raw - uint irr + 18446744073709551616"
        by (simp add: uint_sub_u64)
      have "9223372036854775808 \<le> uint raw - uint irr + 18446744073709551616"
        using i b by linarith
      then show ?thesis using u by (simp add: sint_pos_iff)
    qed
    then show ?thesis using True no i by (simp add: reserve_def Let_def)
  qed
qed

lemma le_standardFee_iff: "x \<le> standardFee \<longleftrightarrow> uint x \<le> 100000"
  by (simp add: standardFee_def word_le_def)

lemma limit_int:
  "uint (limit t b) = (if 100000000 < uint b \<and> t then 100000000 else uint b)"
  by (simp add: limit_def waves_def word_less_def)

lemma generator_balance_answer:
  assumes "Addresses_BalanceDetails w 0 (addr g) = Inr raw"
  shows "generator_balance c w g =
     (if reserve (irreducibleBalance c) raw \<le> standardFee
      then ([Call_getAvailableWavesBalance 0 (addr g),
             Log ''[INFO] Balance of generation account '%s': %s'',
             Log ''[ERROR] Not enough balance on generator's account''],
            Inl (Return (Some errFailure)))
      else ([Call_getAvailableWavesBalance 0 (addr g),
             Log ''[INFO] Balance of generation account '%s': %s'',
             Log ''[INFO] Balance available for transfer: %s''],
            Inr (limit (testRun c) (reserve (irreducibleBalance c) raw))))"
  using assms by (simp add: generator_balance_def getAvailableWavesBalance_def step_defs Let_def)

lemma lessor_balance_answer:
  assumes "Addresses_BalanceDetails w 1 (addr l) = Inr raw"
  shows "lessor_balance c w l =
     (if reserve (irreducibleBalance c) raw \<le> standardFee
      then ([Call_getAvailableWavesBalance 1 (addr l),
             Log ''[INFO] Balance of lessor account '%s': %s'',
             Log ''[ERROR] Not enough balance on lessor's account''],
            Inl (Return (Some errFailure)))
      else ([Call_getAvailableWavesBalance 1 (addr l),
             Log ''[INFO] Balance of lessor account '%s': %s'',
             Log ''[INFO] Balance available for leasing: %s''],
            Inr (limit (testRun c) (reserve (irreducibleBalance c) raw))))"
  using assms by (simp add: lessor_balance_def getAvailableWavesBalance_def step_defs Let_def)

lemma transfer_amount_answer:
  assumes "Addresses_ScriptInfo w 0 (addr g) = Inr e"
  shows "snd (transfer_amount w g b) =
     (if b = standardFee + e then Inl (Return (Some errFailure))
      else Inr (b - (standardFee + e), standardFee + e))"
    and "nonpositive_amount (transfer_amount w g b) \<longleftrightarrow> b = standardFee + e"
  using assms
  by (simp_all add: transfer_amount_def getExtraFee_def step_defs Let_def nonpositive_amount_def)

lemma lease_amount_answer:
  assumes "Addresses_ScriptInfo w 1 (addr l) = Inr e"
  shows "snd (lease_amount w l b) =
     (if b = standardFee + e then Inl (Return (Some errFailure))
      else Inr (b - (standardFee + e), standardFee + e))"
    and "nonpositive_amount (lease_amount w l b) \<longleftrightarrow> b = standardFee + e"
  using assms
  by (simp_all add: lease_amount_def getExtraFee_def step_defs Let_def nonpositive_amount_def)

text \<open>The arithmetic of an amount that is neither clamped nor capped.\<close>

lemma spendable_exact:
  assumes irr: "0 \<le> sint irr"
    and enough: "uint irr + uint standardFee + uint e < uint raw"
    and small: "irr = 0 \<or> uint raw - uint irr < 2^63"
    and cap: "\<not> t \<or> uint raw - uint irr \<le> uint waves"
  shows "\<not> reserve irr raw \<le> standardFee"
    and "limit t (reserve irr raw) \<noteq> standardFee + e"
    and "uint (limit t (reserve irr raw) - (standardFee + e))
           = uint raw - uint irr - uint standardFee - uint e"
proof -
  let ?A = "limit t (reserve irr raw)"
  have b: "0 \<le> uint raw" "0 \<le> uint irr" "0 \<le> uint e" "uint raw < 18446744073709551616"
    "uint irr < 18446744073709551616" "uint e < 18446744073709551616"
    by (simp_all add: uint_u64_less)
  have sf: "uint standardFee = 100000" by (simp add: standardFee_def)
  have wv: "uint waves = 100000000" by (simp add: waves_def)
  have ib: "uint irr < 9223372036854775808" using irr by (simp add: sint_nonneg_iff)
  have r: "uint (reserve irr raw) = uint raw - uint irr"
  proof (cases "uint irr = 0")
    case True
    then show ?thesis using reserve_int [of irr raw] by simp
  next
    case False
    then have "irr \<noteq> 0" by auto
    with small have s: "uint raw - uint irr < 9223372036854775808" by simp
    have p: "0 < uint irr" using False b(2) by linarith
    have q: "uint irr < uint raw" using enough b sf by linarith
    show ?thesis using reserve_int [of irr raw] p q s ib by simp
  qed
  have l: "uint ?A = uint raw - uint irr"
  proof (cases "100000000 < uint (reserve irr raw) \<and> t")
    case True
    then have "uint ?A = 100000000" using limit_int [of t "reserve irr raw"] by simp
    moreover have "uint raw - uint irr = 100000000" using True cap r wv by auto
    ultimately show ?thesis by simp
  next
    case False
    then have "uint ?A = uint (reserve irr raw)" using limit_int [of t "reserve irr raw"] by auto
    then show ?thesis using r by simp
  qed
  have f: "uint (standardFee + e) = 100000 + uint e"
  proof -
    have "uint standardFee + uint e < 18446744073709551616" using enough b by linarith
    then show ?thesis using uint_add_u64 [of standardFee e] sf by simp
  qed
  show "\<not> reserve irr raw \<le> standardFee"
  proof
    assume "reserve irr raw \<le> standardFee"
    then have "uint (reserve irr raw) \<le> 100000" by (simp only: le_standardFee_iff)
    then show False using r enough sf b by linarith
  qed
  show "?A \<noteq> standardFee + e"
  proof
    assume "?A = standardFee + e"
    then have "uint ?A = uint (standardFee + e)" by (rule arg_cong)
    then show False using l f enough sf b by linarith
  qed
  have le: "uint (standardFee + e) \<le> uint ?A" using l f enough sf b by linarith
  have "uint (?A - (standardFee + e)) = uint ?A - uint (standardFee + e)"
    using uint_sub_u64 [of ?A "standardFee + e"] le by (simp only: if_True)
  also have "\<dots> = uint raw - uint irr - uint standardFee - uint e"
    using l f sf by linarith
  finally show "uint (?A - (standardFee + e)) = uint raw - uint irr - uint standardFee - uint e" .
qed

lemma snd_andThen:
  "snd (andThen m f) = (case snd m of Inl x \<Rightarrow> Inl x | Inr a \<Rightarrow> snd (f a))"
  by (simp add: andThen_def split: sum.splits)

lemma fst_andThen:
  "fst (andThen m f) = fst m @ (case snd m of Inl x \<Rightarrow> [] | Inr a \<Rightarrow> fst (f a))"
  by (simp add: andThen_def split: sum.splits)

lemmas example_defs = example_world_def example_flags_def default_flags_def


lemma track_loop_found: "found (info n) \<Longrightarrow> track_loop info n = Some (TrackReturn None)"
  by (subst track_loop.simps) (auto simp: found_def cancelled_def)

lemma track_loop_cancelled:
  "cancelled (info n) \<Longrightarrow> track_loop info n = Some (TrackReturn (Some ContextCanceled))"
  by (subst track_loop.simps) (auto simp: cancelled_def)

lemma track_loop_no_response: "no_response (info n) \<Longrightarrow> track_loop info n = Some TrackPanic"
  by (subst track_loop.simps) (auto simp: no_response_def cancelled_def)

lemma track_loop_step: "not_yet_found (info n) \<Longrightarrow> track_loop info n = track_loop info (Suc n)"
  by (subst track_loop.simps) (auto simp: not_yet_found_def cancelled_def split: option.splits)

lemma track_loop_skip:
  "\<forall>k. n \<le> k \<and> k < n + d \<longrightarrow> not_yet_found (info k) \<Longrightarrow>
   track_loop info n = track_loop info (n + d)"
proof (induction d arbitrary: n)
  case 0
  then show ?case by simp
next
  case (Suc d)
  have "track_loop info n = track_loop info (Suc n)"
    using Suc.prems by (intro track_loop_step) simp
  also have "\<dots> = track_loop info (Suc n + d)"
    using Suc.prems by (intro Suc.IH) simp
  finally show ?case by simp
qed

lemma answer_cases:
  "not_yet_found r \<or> found r \<or> cancelled r \<or> no_response r"
  by (auto simp: not_yet_found_def found_def no_response_def split: option.splits)

lemma track_loop_ends:
  assumes "track_loop info n = Some r"
  shows "\<exists>k\<ge>n. \<not> not_yet_found (info k)"
proof (rule track_loop.raw_induct
    [where P = "\<lambda>info n r. \<exists>k\<ge>n. \<not> not_yet_found (info k)", OF _ assms])
  fix f :: "(nat \<Rightarrow> info_result) \<Rightarrow> nat \<Rightarrow> track_end option" and info n r
  assume IH: "\<And>info n r. f info n = Some r \<Longrightarrow> \<exists>k\<ge>n. \<not> not_yet_found (info k)"
    and body: "(if info_err (info n) = Some ContextCanceled
                then Some (TrackReturn (info_err (info n)))
                else case rsp (info n) of
                       None \<Rightarrow> Some TrackPanic
                     | Some StatusCode \<Rightarrow>
                         if StatusCode = 200 then Some (TrackReturn None)
                         else f info (Suc n)) = Some r"
  show "\<exists>k\<ge>n. \<not> not_yet_found (info k)"
  proof (cases "not_yet_found (info n)")
    case False
    then show ?thesis by blast
  next
    case True
    then have "f info (Suc n) = Some r"
      using body by (auto simp: not_yet_found_def cancelled_def split: option.splits if_splits)
    then obtain k where "k \<ge> Suc n" "\<not> not_yet_found (info k)" using IH by blast
    then show ?thesis by (meson Suc_leD)
  qed
qed

lemma track_loop_never:
  "\<forall>k. not_yet_found (info k) \<Longrightarrow> track_loop info n = None"
  using track_loop_ends [of info n] by (cases "track_loop info n") auto

lemma track_loop_abnormal:
  assumes "track_loop info 0 = Some r"
  shows "\<exists>m. (\<forall>k<m. not_yet_found (info k)) \<and>
             (found (info m) \<and> r = TrackReturn None \<or>
              cancelled (info m) \<and> r = TrackReturn (Some ContextCanceled) \<or>
              no_response (info m) \<and> r = TrackPanic)"
proof -
  from track_loop_ends [OF assms] obtain k where k: "\<not> not_yet_found (info k)" by blast
  define m where "m = (LEAST k. \<not> not_yet_found (info k))"
  have m: "\<not> not_yet_found (info m)" unfolding m_def using k by (rule LeastI)
  have before: "\<forall>k<m. not_yet_found (info k)"
    unfolding m_def using not_less_Least by blast
  then have "track_loop info 0 = track_loop info (0 + m)"
    by (intro track_loop_skip) simp
  then have e: "track_loop info m = Some r" using assms by simp
  from m answer_cases [of "info m"]
  consider "found (info m)" | "cancelled (info m)" | "no_response (info m)" by blast
  then show ?thesis
  proof cases
    case 1
    then show ?thesis using e before track_loop_found [of info m] by auto
  next
    case 2
    then show ?thesis using e before track_loop_cancelled [of info m] by auto
  next
    case 3
    then show ?thesis using e before track_loop_no_response [of info m] by auto
  qed
qed

lemma snd_track:
  "snd (track w i) =
     (case track_loop (Transactions_Info w i) 0 of
        None \<Rightarrow> Inl Hang
      | Some TrackPanic \<Rightarrow> Inl Panic
      | Some (TrackReturn e) \<Rightarrow> Inr e)"
  by (simp add: track_def step_defs split: option.splits track_end.splits)

lemma track_loop_from_start:
  "\<forall>k<n. not_yet_found (info k) \<Longrightarrow> track_loop info 0 = track_loop info n"
  using track_loop_skip [of 0 n info] by simp

lemma four_ends:
  assumes "F \<Longrightarrow> s = a" "C \<Longrightarrow> s = b" "H \<Longrightarrow> s = c" "P \<Longrightarrow> s = d" "H \<or> F \<or> C \<or> P"
    and "a \<noteq> b" "a \<noteq> c" "a \<noteq> d" "b \<noteq> c" "b \<noteq> d" "c \<noteq> d"
  shows "(s = a \<longleftrightarrow> F) \<and> (s = b \<longleftrightarrow> C) \<and> (s = c \<longleftrightarrow> H) \<and> (s = d \<longleftrightarrow> P) \<and>
         (s = a \<or> s = b \<or> s = c \<or> s = d)"
  using assms by (cases F; cases C; cases H; cases P) simp_all

lemma answers_end:
  fixes info :: "nat \<Rightarrow> info_result"
  shows "(\<forall>k. not_yet_found (info k)) \<or>
   (\<exists>n. (\<forall>k<n. not_yet_found (info k)) \<and>
        (found (info n) \<or> cancelled (info n) \<or> no_response (info n)))"
proof (cases "\<forall>k. not_yet_found (info k)")
  case True
  then show ?thesis by blast
next
  case False
  then obtain k where k: "\<not> not_yet_found (info k)" by blast
  define m where "m = (LEAST k. \<not> not_yet_found (info k))"
  have m: "\<not> not_yet_found (info m)" unfolding m_def using k by (rule LeastI)
  have before: "\<forall>k<m. not_yet_found (info k)"
    unfolding m_def using not_less_Least by blast
  from m answer_cases [of "info m"]
  have "found (info m) \<or> cancelled (info m) \<or> no_response (info m)" by blast
  with before show ?thesis by blast
qed

lemma fst_seq_emit: "fst (seq (emit e) k) = e # fst k"
  by (simp add: step_defs split: sum.splits)

lemma trace_andThen:
  assumes "Q (fst m)" and "\<And>a. snd m = Inr a \<Longrightarrow> Q (fst (f a))"
    and "\<And>s t. Q s \<Longrightarrow> Q t \<Longrightarrow> Q (s @ t)"
  shows "Q (fst (andThen m f))"
  using assms by (cases "snd m") (simp_all add: fst_andThen)

lemma every_andThen: "every P m \<Longrightarrow> (\<And>a. every P (f a)) \<Longrightarrow> every P (andThen m f)"
  by (cases "snd m") (auto simp: every_def fst_andThen)

lemma every_seq: "every P m \<Longrightarrow> every P k \<Longrightarrow> every P (seq m k)"
  by (simp add: seq_def every_andThen)

lemma every_ret: "every P (ret a)"
  by (simp add: every_def ret_def)

lemma every_leave: "every P (leave x)"
  by (simp add: every_def leave_def)

lemma every_emit: "P e \<Longrightarrow> every P (emit e)"
  by (simp add: every_def emit_def)

lemma every_log: "P (Log s) \<Longrightarrow> every P (log s)"
  by (simp add: log_def every_emit)

lemma every_fail_with: "P (Log s) \<Longrightarrow> every P (fail_with s x)"
  by (simp add: fail_with_def every_seq every_log every_leave)

lemma every_on_error: "P (Log s) \<Longrightarrow> every P (on_error s x)"
  by (simp add: on_error_def every_fail_with every_leave)

lemma every_if: "every P a \<Longrightarrow> every P b \<Longrightarrow> every P (if c then a else b)"
  by simp

lemma every_option: "every P a \<Longrightarrow> (\<And>x. every P (f x)) \<Longrightarrow> every P (case v of None \<Rightarrow> a | Some x \<Rightarrow> f x)"
  by (cases v) simp_all

lemma every_sum: "(\<And>x. every P (f x)) \<Longrightarrow> (\<And>x. every P (g x)) \<Longrightarrow> every P (case v of Inl x \<Rightarrow> f x | Inr x \<Rightarrow> g x)"
  by (cases v) simp_all

lemma every_prod: "(\<And>x y. every P (f x y)) \<Longrightarrow> every P (case v of (x, y) \<Rightarrow> f x y)"
  by (cases v) simp

lemma every_Let: "(\<And>x. every P (f x)) \<Longrightarrow> every P (Let v f)"
  by simp

lemmas every_intros = every_andThen every_seq every_ret every_leave every_emit every_log
  every_fail_with every_on_error every_if every_option every_sum every_prod every_Let

lemma parse_mode_quiet: "every quiet (parse_mode c w)"
  unfolding parse_mode_def by (intro every_intros) simp_all

lemma parse_flags_quiet: "every quiet (parse_flags c w)"
  unfolding parse_flags_def by (intro every_intros parse_mode_quiet) simp_all

lemma connect_quiet: "every quiet (connect w u)"
  unfolding connect_def by (intro every_intros) simp_all

lemma chain_facts_quiet: "every quiet (chain_facts w)"
  unfolding chain_facts_def by (intro every_intros) simp_all

lemma accounts_quiet: "every quiet (accounts c w p scheme)"
  unfolding accounts_def by (intro every_intros) simp_all

lemma generator_balance_query: "every (query 0) (generator_balance c w g)"
  unfolding generator_balance_def by (intro every_intros) simp_all

lemma transfer_amount_query: "every (query 0) (transfer_amount w g b)"
  unfolding transfer_amount_def by (intro every_intros) simp_all

lemma lessor_balance_query: "every (query 1) (lessor_balance c w g)"
  unfolding lessor_balance_def by (intro every_intros) simp_all

lemma lease_amount_query: "every (query 1) (lease_amount w g b)"
  unfolding lease_amount_def by (intro every_intros) simp_all

lemma track_quiet: "every quiet (track w i)"
  unfolding track_def by (intro every_intros every_option) (simp_all add: every_leave every_ret split: track_end.splits)

lemma every_mono: "every P m \<Longrightarrow> (\<And>e. P e \<Longrightarrow> Q e) \<Longrightarrow> every Q m"
  by (auto simp: every_def)



lemma quiet_not_lease: "quiet e \<Longrightarrow> \<not> lease_event e"
  by (cases e) simp_all

lemma query_not_lease: "query 0 e \<Longrightarrow> \<not> lease_event e"
  by (cases e) simp_all



lemma quiet_query: "quiet e \<Longrightarrow> query n e"
  by (cases e) simp_all

lemma query_dry: "every (query n) m \<Longrightarrow> dry_step w m"
proof -
  assume a: "every (query n) m"
  have "\<not> sends e \<and> (\<forall>tx i. e \<noteq> Call_Sign tx i)" if "query n e" for e
    using that by (cases e) simp_all
  then show ?thesis
    using a by (fastforce simp: every_def dry_step_def signed_rendered_def split: event.splits)
qed

lemma signed_rendered_append:
  "signed_rendered w s False \<Longrightarrow> signed_rendered w t b \<Longrightarrow> signed_rendered w (s @ t) b"
  by (fastforce simp: signed_rendered_def split: event.splits option.splits)

lemma signed_rendered_weaken:
  "signed_rendered w t b \<Longrightarrow> \<not> b \<Longrightarrow> signed_rendered w t False"
  by simp

lemma track_no_lease: "every (\<lambda>e. \<not> lease_event e) (track w i)"
  by (rule every_mono [OF track_quiet]) (rule quiet_not_lease)


lemma send_transfer_no_lease:
  "every (\<lambda>e. \<not> lease_event e) (send_transfer c w scheme txVer g r amount fee)"
  unfolding send_transfer_def Let_def
  by (intro every_intros track_no_lease) simp_all



lemma send_transfer_dry:
  "dryRun c \<Longrightarrow> dry_step w (send_transfer c w scheme txVer g r amount fee)"
  by (auto simp: send_transfer_def Let_def step_defs dry_step_def signed_rendered_def
        render_line_def split: option.splits)

lemma send_lease_dry:
  "dryRun c \<Longrightarrow> dry_step w (send_lease c w scheme txVer lsk l r amount fee)"
  by (auto simp: send_lease_def Let_def step_defs dry_step_def signed_rendered_def
        render_line_def split: option.splits)






lemma log_no_lease: "every (\<lambda>e. \<not> lease_event e) (log s)"
  by (simp add: every_log)


lemma fst_run: "fst (run c w) = fst (run_steps c w)"
  by (simp add: run_def split: sum.splits)

lemmas no_lease_steps =
  every_mono [OF parse_flags_quiet quiet_not_lease]
  every_mono [OF connect_quiet quiet_not_lease]
  every_mono [OF chain_facts_quiet quiet_not_lease]
  every_mono [OF accounts_quiet quiet_not_lease]
  every_mono [OF generator_balance_query query_not_lease]
  every_mono [OF transfer_amount_query query_not_lease]
  send_transfer_no_lease

lemma transfer_phase_no_lease: "every (\<lambda>e. \<not> lease_event e) (transfer_phase c w p)"
  unfolding transfer_phase_def
  by (intro every_andThen every_seq every_prod every_ret no_lease_steps)

lemma run_steps_no_lease:
  assumes "transferOnly c"
  shows "every (\<lambda>e. \<not> lease_event e) (run_steps c w)"
  unfolding run_steps_def if_P [OF assms]
  by (intro every_andThen every_seq log_no_lease every_leave no_lease_steps transfer_phase_no_lease)













lemma quiet_dry: "every quiet m \<Longrightarrow> dry_step w m"
  by (rule query_dry [of 0]) (rule every_mono, assumption, rule quiet_query)

lemma dry_andThen:
  assumes m: "dry_step w m" and f: "\<And>a. dry_step w (f a)"
  shows "dry_step w (andThen m f)"
proof (cases "snd m")
  case (Inl x)
  then have "andThen m f = (fst m, Inl x)" by (simp add: andThen_def)
  then show ?thesis using m Inl by (simp add: dry_step_def)
next
  case (Inr a)
  then have e: "fst (andThen m f) = fst m @ fst (f a)" "snd (andThen m f) = snd (f a)"
    by (simp_all add: andThen_def)
  have "signed_rendered w (fst m) False"
    using m Inr by (simp add: dry_step_def)
  then have "signed_rendered w (fst m @ fst (f a)) (snd (f a) = Inl (Return (Some errFailure)))"
    using f [of a] by (intro signed_rendered_append) (simp_all add: dry_step_def)
  then show ?thesis using m f [of a] by (auto simp: dry_step_def e)
qed

lemma dry_seq: "dry_step w m \<Longrightarrow> dry_step w k \<Longrightarrow> dry_step w (seq m k)"
  by (simp add: seq_def dry_andThen)

lemma dry_ret: "dry_step w (ret a)"
  by (simp add: ret_def dry_step_def signed_rendered_def)

lemma dry_leave: "dry_step w (leave x)"
  by (simp add: leave_def dry_step_def signed_rendered_def)

lemma dry_log: "dry_step w (log s)"
  by (simp add: log_def emit_def dry_step_def signed_rendered_def)

lemma dry_if: "dry_step w a \<Longrightarrow> dry_step w b \<Longrightarrow> dry_step w (if x then a else b)"
  by simp

lemma dry_prod: "(\<And>x y. dry_step w (f x y)) \<Longrightarrow> dry_step w (case v of (x, y) \<Rightarrow> f x y)"
  by (cases v) simp

lemmas dry_steps =
  quiet_dry [OF parse_flags_quiet] quiet_dry [OF connect_quiet] quiet_dry [OF chain_facts_quiet]
  quiet_dry [OF accounts_quiet] query_dry [OF generator_balance_query]
  query_dry [OF transfer_amount_query] query_dry [OF lessor_balance_query]
  query_dry [OF lease_amount_query]

lemma run_steps_dry:
  assumes "dryRun c"
  shows "dry_step w (run_steps c w)"
  unfolding run_steps_def transfer_phase_def lease_phase_def
  by (intro dry_andThen dry_seq dry_ret dry_leave dry_log dry_if dry_prod dry_steps
        send_transfer_dry [OF assms] send_lease_dry [OF assms])

lemma signed_renderedD:
  "signed_rendered w t b \<Longrightarrow> Call_Sign tx (Some i) \<in> set t \<Longrightarrow>
   Call_Marshal tx \<in> set t \<and>
   (case json_Marshal w tx of Some j \<Rightarrow> render_line tx j \<in> set t | None \<Rightarrow> b)"
  by (fastforce simp: signed_rendered_def)

lemma snd_run_failed:
  "snd (run c w) = Return (Some errFailure)
     \<longleftrightarrow> snd (run_steps c w) = Inl (Return (Some errFailure))"
  by (simp add: run_def split: sum.splits)

section \<open>The amounts\<close>

text \<open>
  C2, as stated in the specification: for every raw balance above the irreducible balance
  plus the standard fee plus the extra fee, the amount is exactly the raw balance minus
  these three. The code does this under two more conditions, which the theorem assumes:
  the difference of raw balance and irreducible balance is below \<open>2 ^ 63\<close> (it is
  computed as an \<open>int64\<close>), and the test-run cap does not apply (no test run, or the
  balance left after the reservation is at most one WAVES). The irreducible balance is not
  negative: \<open>run\<close> refuses a negative one before. Both the transfer and the lease
  compute their amount this way.
\<close>

theorem spendable_amount_exact:
  assumes "0 \<le> sint (irreducibleBalance c)"
    and "uint (irreducibleBalance c) + uint standardFee + uint extraFee < uint rawBalance"
    and "irreducibleBalance c = 0 \<or> uint rawBalance - uint (irreducibleBalance c) < 2 ^ 63"
    and "\<not> testRun c \<or> uint rawBalance - uint (irreducibleBalance c) \<le> uint waves"
  shows "(Addresses_BalanceDetails w 0 (addr g) = Inr rawBalance \<and>
          Addresses_ScriptInfo w 0 (addr g) = Inr extraFee \<longrightarrow>
            (\<exists>amount. snd (andThen (generator_balance c w g) (transfer_amount w g))
                        = Inr (amount, standardFee + extraFee) \<and>
                      uint amount = uint rawBalance - uint (irreducibleBalance c)
                                      - uint standardFee - uint extraFee)) \<and>
         (Addresses_BalanceDetails w 1 (addr l) = Inr rawBalance \<and>
          Addresses_ScriptInfo w 1 (addr l) = Inr extraFee \<longrightarrow>
            (\<exists>amount. snd (andThen (lessor_balance c w l) (lease_amount w l))
                        = Inr (amount, standardFee + extraFee) \<and>
                      uint amount = uint rawBalance - uint (irreducibleBalance c)
                                      - uint standardFee - uint extraFee))"
proof -
  let ?irr = "irreducibleBalance c"
  let ?b = "limit (testRun c) (reserve ?irr rawBalance)"
  note ar = spendable_exact [OF assms]
  show ?thesis
  proof (intro conjI impI)
    assume a: "Addresses_BalanceDetails w 0 (addr g) = Inr rawBalance \<and>
               Addresses_ScriptInfo w 0 (addr g) = Inr extraFee"
    have "snd (generator_balance c w g) = Inr ?b"
      using generator_balance_answer [of w g rawBalance c] a ar(1) by simp
    moreover have "snd (transfer_amount w g ?b) = Inr (?b - (standardFee + extraFee), standardFee + extraFee)"
      using transfer_amount_answer(1) [of w g extraFee ?b] a ar(2) by simp
    ultimately have "snd (andThen (generator_balance c w g) (transfer_amount w g))
        = Inr (?b - (standardFee + extraFee), standardFee + extraFee)"
      by (simp only: snd_andThen sum.case)
    with ar(3)
    show "\<exists>amount. snd (andThen (generator_balance c w g) (transfer_amount w g))
                        = Inr (amount, standardFee + extraFee) \<and>
                      uint amount = uint rawBalance - uint (irreducibleBalance c)
                                      - uint standardFee - uint extraFee"
      by blast
  next
    assume a: "Addresses_BalanceDetails w 1 (addr l) = Inr rawBalance \<and>
               Addresses_ScriptInfo w 1 (addr l) = Inr extraFee"
    have "snd (lessor_balance c w l) = Inr ?b"
      using lessor_balance_answer [of w l rawBalance c] a ar(1) by simp
    moreover have "snd (lease_amount w l ?b) = Inr (?b - (standardFee + extraFee), standardFee + extraFee)"
      using lease_amount_answer(1) [of w l extraFee ?b] a ar(2) by simp
    ultimately have "snd (andThen (lessor_balance c w l) (lease_amount w l))
        = Inr (?b - (standardFee + extraFee), standardFee + extraFee)"
      by (simp only: snd_andThen sum.case)
    with ar(3)
    show "\<exists>amount. snd (andThen (lessor_balance c w l) (lease_amount w l))
                        = Inr (amount, standardFee + extraFee) \<and>
                      uint amount = uint rawBalance - uint (irreducibleBalance c)
                                      - uint standardFee - uint extraFee"
      by blast
  qed
qed
theorem spendable_amount_exact_witness:
  "0 \<le> sint (irreducibleBalance example_flags) \<and>
   uint (irreducibleBalance example_flags) + uint standardFee + uint (0::u64) < uint (150000000::u64) \<and>
   \<not> testRun example_flags \<and>
   snd (andThen (generator_balance example_flags (example_world 150000000 0 150000000 0) zero_account)
          (transfer_amount (example_world 150000000 0 150000000 0) zero_account))
     = Inr (49900000, 100000) \<and>
   snd (andThen (lessor_balance example_flags (example_world 150000000 0 150000000 0) zero_account)
          (lease_amount (example_world 150000000 0 150000000 0) zero_account))
     = Inr (49900000, 100000)"
proof -
  have h1: "0 \<le> sint (irreducibleBalance example_flags)"
    by (simp add: example_defs waves_def)
  have h2: "uint (irreducibleBalance example_flags) + uint standardFee + uint (0::u64) < uint (150000000::u64)"
    by (simp add: example_defs waves_def standardFee_def)
  have h3: "irreducibleBalance example_flags = 0 \<or>
            uint (150000000::u64) - uint (irreducibleBalance example_flags) < 2 ^ 63"
    by (simp add: example_defs waves_def)
  have h4: "\<not> testRun example_flags \<or>
            uint (150000000::u64) - uint (irreducibleBalance example_flags) \<le> uint waves"
    by (simp add: example_defs)
  have e: "\<And>a::u64. uint a = 49900000 \<longleftrightarrow> a = 49900000"
    using word_uint_eq_iff[of _ "49900000::u64"] by simp
  from spendable_amount_exact [OF h1 h2 h3 h4, of "example_world 150000000 0 150000000 0"
      zero_account zero_account]
  show ?thesis
    using h1 h2 by (simp add: example_defs waves_def standardFee_def e)
qed


text \<open>
  C2 fails as stated: in a test run a balance of 5 WAVES is capped to 1 WAVES, so that the
  amount is 99900000 and not 499900000; and a raw balance of \<open>2 ^ 64 - 1\<close> with an
  irreducible balance of 1 is clamped to zero and refused.
\<close>

theorem spendable_amount_exact_counterexample:
  "snd (andThen
          (generator_balance (example_flags \<lparr> irreducibleBalance := 0, testRun := True \<rparr>)
             (example_world 500000000 0 0 0) zero_account)
          (transfer_amount (example_world 500000000 0 0 0) zero_account))
     = Inr (99900000, 100000) \<and>
   uint (99900000 :: u64) \<noteq> uint (500000000 :: u64) - uint (0 :: u64) - uint standardFee - uint (0 :: u64) \<and>
   snd (andThen
          (generator_balance (example_flags \<lparr> irreducibleBalance := 1 \<rparr>)
             (example_world 18446744073709551615 0 0 0) zero_account)
          (transfer_amount (example_world 18446744073709551615 0 0 0) zero_account))
     = Inl (Return (Some errFailure))"
  by (simp add: snd_andThen generator_balance_def transfer_amount_def getAvailableWavesBalance_def
        getExtraFee_def step_defs Let_def reserve_def limit_def waves_def standardFee_def
        example_defs)

text \<open>
  C1, at an input where the code does not do what the claim says. The claim: a balance
  above the standard fee but not above the standard fee plus the extra fee passes the
  balance check and then fails the check of the amount. The amount is a \<open>uint64\<close>: below
  the fee it wraps around, and \<open>amount <= 0\<close> only catches the balance that equals the
  fee. With a balance of 100001 left after the reservation and an extra fee of 400000 the
  amount is \<open>2 ^ 64 - 399999\<close>; the run signs and broadcasts a transfer of that amount.
\<close>

theorem unsigned_amount_wraps:
  "snd (transfer_amount (example_world 100100001 400000 0 0) zero_account 100001)
     = Inr (18446744073709151617, 500000) \<and>
   \<not> nonpositive_amount (transfer_amount (example_world 100100001 400000 0 0) zero_account 100001) \<and>
   snd (lease_amount (example_world 0 0 100100001 400000) zero_account 100001)
     = Inr (18446744073709151617, 500000) \<and>
   Call_broadcast (TransferWithProofs 3 [10, 1] 1700000000000 18446744073709151617 500000 [87, 10, 2])
     \<in> set (fst (run example_flags (example_world 100100001 400000 0 0)))"
proof -
  have a: "Addresses_ScriptInfo (example_world 100100001 400000 0 0) 0 (addr zero_account) = Inr 400000"
    by (simp add: example_world_def)
  have b: "Addresses_ScriptInfo (example_world 0 0 100100001 400000) 1 (addr zero_account) = Inr 400000"
    by (simp add: example_world_def)
  have c: "Call_broadcast (TransferWithProofs 3 [10, 1] 1700000000000 18446744073709151617 500000 [87, 10, 2])
     \<in> set (fst (run example_flags (example_world 100100001 400000 0 0)))"
    by code_simp
  show ?thesis
    using c by (simp add: transfer_amount_answer [OF a] lease_amount_answer [OF b] standardFee_def)
qed

text \<open>
  C3, amended: for an irreducible balance that is not negative and a raw balance that
  exceeds it by less than \<open>2 ^ 63\<close> (or with no irreducible balance at all), the balance
  after the reservation is the difference of the two, clamped at zero; the run fails with
  \<open>Not enough balance\<close> exactly when that balance is at most the standard fee, having
  asked for the balance only and not yet for the extra fee; otherwise the step hands on
  that balance, capped at one WAVES in a test run. A raw balance that is at most the
  irreducible balance fails, and so does a raw balance equal to the standard fee with no
  reservation. The same for the generator and for the lessor.
\<close>

theorem insufficient_balance_check:
  assumes "0 \<le> sint (irreducibleBalance c)"
    and "irreducibleBalance c = 0 \<or> uint raw - uint (irreducibleBalance c) < 2 ^ 63"
  shows
   "uint (reserve (irreducibleBalance c) raw) = max 0 (uint raw - uint (irreducibleBalance c)) \<and>
    (Addresses_BalanceDetails w 0 (addr g) = Inr raw \<longrightarrow>
       (not_enough_balance (generator_balance c w g)
          \<longleftrightarrow> max 0 (uint raw - uint (irreducibleBalance c)) \<le> uint standardFee) \<and>
       (max 0 (uint raw - uint (irreducibleBalance c)) \<le> uint standardFee \<longrightarrow>
          generator_balance c w g =
            ([Call_getAvailableWavesBalance 0 (addr g),
              Log ''[INFO] Balance of generation account '%s': %s'',
              Log ''[ERROR] Not enough balance on generator's account''],
             Inl (Return (Some errFailure)))) \<and>
       (uint standardFee < max 0 (uint raw - uint (irreducibleBalance c)) \<longrightarrow>
          (\<exists>balance.
             generator_balance c w g =
               ([Call_getAvailableWavesBalance 0 (addr g),
                 Log ''[INFO] Balance of generation account '%s': %s'',
                 Log ''[INFO] Balance available for transfer: %s''],
                Inr balance) \<and>
             uint balance =
               (if testRun c \<and> uint waves < uint raw - uint (irreducibleBalance c)
                then uint waves else uint raw - uint (irreducibleBalance c)))) \<and>
       (uint raw \<le> uint (irreducibleBalance c) \<longrightarrow> not_enough_balance (generator_balance c w g)) \<and>
       (irreducibleBalance c = 0 \<and> raw = standardFee
          \<longrightarrow> not_enough_balance (generator_balance c w g))) \<and>
    (Addresses_BalanceDetails w 1 (addr l) = Inr raw \<longrightarrow>
       (not_enough_balance (lessor_balance c w l)
          \<longleftrightarrow> max 0 (uint raw - uint (irreducibleBalance c)) \<le> uint standardFee) \<and>
       (max 0 (uint raw - uint (irreducibleBalance c)) \<le> uint standardFee \<longrightarrow>
          lessor_balance c w l =
            ([Call_getAvailableWavesBalance 1 (addr l),
              Log ''[INFO] Balance of lessor account '%s': %s'',
              Log ''[ERROR] Not enough balance on lessor's account''],
             Inl (Return (Some errFailure)))) \<and>
       (uint standardFee < max 0 (uint raw - uint (irreducibleBalance c)) \<longrightarrow>
          (\<exists>balance.
             lessor_balance c w l =
               ([Call_getAvailableWavesBalance 1 (addr l),
                 Log ''[INFO] Balance of lessor account '%s': %s'',
                 Log ''[INFO] Balance available for leasing: %s''],
                Inr balance) \<and>
             uint balance =
               (if testRun c \<and> uint waves < uint raw - uint (irreducibleBalance c)
                then uint waves else uint raw - uint (irreducibleBalance c)))) \<and>
       (uint raw \<le> uint (irreducibleBalance c) \<longrightarrow> not_enough_balance (lessor_balance c w l)) \<and>
       (irreducibleBalance c = 0 \<and> raw = standardFee
          \<longrightarrow> not_enough_balance (lessor_balance c w l)))"
proof -
  let ?irr = "irreducibleBalance c"
  let ?d = "max 0 (uint raw - uint ?irr)"
  have ib: "uint ?irr < 9223372036854775808" using assms(1) by (simp add: sint_nonneg_iff)
  have sf: "uint standardFee = 100000" by (simp add: standardFee_def)
  have wv: "uint waves = 100000000" by (simp add: waves_def)
  have r: "uint (reserve ?irr raw) = ?d"
  proof (cases "uint ?irr = 0")
    case True
    then show ?thesis using reserve_int [of ?irr raw] by simp
  next
    case False
    then have "?irr \<noteq> 0" by auto
    with assms(2) have s: "uint raw - uint ?irr < 9223372036854775808" by simp
    have p: "0 < uint ?irr" using False by (simp add: order_less_le)
    show ?thesis using reserve_int [of ?irr raw] p s ib by (simp add: max_def)
  qed
  have le: "reserve ?irr raw \<le> standardFee \<longleftrightarrow> ?d \<le> uint standardFee"
    using r by (simp add: le_standardFee_iff sf)
  have lim: "uint (limit (testRun c) (reserve ?irr raw)) =
               (if testRun c \<and> uint waves < uint raw - uint ?irr
                then uint waves else uint raw - uint ?irr)"
    if "uint standardFee < ?d"
  proof -
    have "?d = uint raw - uint ?irr" using that sf by (simp add: max_def split: if_splits)
    then show ?thesis using r by (auto simp: limit_int wv)
  qed
  have below: "?d \<le> uint standardFee" if "uint raw \<le> uint ?irr"
    using that by (simp add: sf max_def)
  have eq: "?d \<le> uint standardFee" if "?irr = 0 \<and> raw = standardFee"
    using that by (simp add: sf)
  have g: "not_enough_balance (generator_balance c w g) \<longleftrightarrow> ?d \<le> uint standardFee"
      "?d \<le> uint standardFee \<longrightarrow>
          generator_balance c w g =
            ([Call_getAvailableWavesBalance 0 (addr g),
              Log ''[INFO] Balance of generation account '%s': %s'',
              Log ''[ERROR] Not enough balance on generator's account''],
             Inl (Return (Some errFailure)))"
      "uint standardFee < ?d \<longrightarrow>
          (\<exists>balance.
             generator_balance c w g =
               ([Call_getAvailableWavesBalance 0 (addr g),
                 Log ''[INFO] Balance of generation account '%s': %s'',
                 Log ''[INFO] Balance available for transfer: %s''],
                Inr balance) \<and>
             uint balance =
               (if testRun c \<and> uint waves < uint raw - uint ?irr
                then uint waves else uint raw - uint ?irr))"
    if a: "Addresses_BalanceDetails w 0 (addr g) = Inr raw"
  proof -
    show "not_enough_balance (generator_balance c w g) \<longleftrightarrow> ?d \<le> uint standardFee"
      using le by (simp add: generator_balance_answer [OF a] not_enough_balance_def)
    show "?d \<le> uint standardFee \<longrightarrow>
          generator_balance c w g =
            ([Call_getAvailableWavesBalance 0 (addr g),
              Log ''[INFO] Balance of generation account '%s': %s'',
              Log ''[ERROR] Not enough balance on generator's account''],
             Inl (Return (Some errFailure)))"
      using le by (simp add: generator_balance_answer [OF a])
    show "uint standardFee < ?d \<longrightarrow>
          (\<exists>balance.
             generator_balance c w g =
               ([Call_getAvailableWavesBalance 0 (addr g),
                 Log ''[INFO] Balance of generation account '%s': %s'',
                 Log ''[INFO] Balance available for transfer: %s''],
                Inr balance) \<and>
             uint balance =
               (if testRun c \<and> uint waves < uint raw - uint ?irr
                then uint waves else uint raw - uint ?irr))"
    proof
      assume b: "uint standardFee < ?d"
      then have "\<not> ?d \<le> uint standardFee" by (simp only: not_le)
      then have "\<not> reserve ?irr raw \<le> standardFee" using le by blast
      then have "generator_balance c w g =
               ([Call_getAvailableWavesBalance 0 (addr g),
                 Log ''[INFO] Balance of generation account '%s': %s'',
                 Log ''[INFO] Balance available for transfer: %s''],
                Inr (limit (testRun c) (reserve ?irr raw)))"
        by (simp add: generator_balance_answer [OF a])
      then show "\<exists>balance.
             generator_balance c w g =
               ([Call_getAvailableWavesBalance 0 (addr g),
                 Log ''[INFO] Balance of generation account '%s': %s'',
                 Log ''[INFO] Balance available for transfer: %s''],
                Inr balance) \<and>
             uint balance =
               (if testRun c \<and> uint waves < uint raw - uint ?irr
                then uint waves else uint raw - uint ?irr)"
        using lim [OF b] by blast
    qed
  qed
  have l: "not_enough_balance (lessor_balance c w l) \<longleftrightarrow> ?d \<le> uint standardFee"
      "?d \<le> uint standardFee \<longrightarrow>
          lessor_balance c w l =
            ([Call_getAvailableWavesBalance 1 (addr l),
              Log ''[INFO] Balance of lessor account '%s': %s'',
              Log ''[ERROR] Not enough balance on lessor's account''],
             Inl (Return (Some errFailure)))"
      "uint standardFee < ?d \<longrightarrow>
          (\<exists>balance.
             lessor_balance c w l =
               ([Call_getAvailableWavesBalance 1 (addr l),
                 Log ''[INFO] Balance of lessor account '%s': %s'',
                 Log ''[INFO] Balance available for leasing: %s''],
                Inr balance) \<and>
             uint balance =
               (if testRun c \<and> uint waves < uint raw - uint ?irr
                then uint waves else uint raw - uint ?irr))"
    if a: "Addresses_BalanceDetails w 1 (addr l) = Inr raw"
  proof -
    show "not_enough_balance (lessor_balance c w l) \<longleftrightarrow> ?d \<le> uint standardFee"
      using le by (simp add: lessor_balance_answer [OF a] not_enough_balance_def)
    show "?d \<le> uint standardFee \<longrightarrow>
          lessor_balance c w l =
            ([Call_getAvailableWavesBalance 1 (addr l),
              Log ''[INFO] Balance of lessor account '%s': %s'',
              Log ''[ERROR] Not enough balance on lessor's account''],
             Inl (Return (Some errFailure)))"
      using le by (simp add: lessor_balance_answer [OF a])
    show "uint standardFee < ?d \<longrightarrow>
          (\<exists>balance.
             lessor_balance c w l =
               ([Call_getAvailableWavesBalance 1 (addr l),
                 Log ''[INFO] Balance of lessor account '%s': %s'',
                 Log ''[INFO] Balance available for leasing: %s''],
                Inr balance) \<and>
             uint balance =
               (if testRun c \<and> uint waves < uint raw - uint ?irr
                then uint waves else uint raw - uint ?irr))"
    proof
      assume b: "uint standardFee < ?d"
      then have "\<not> ?d \<le> uint standardFee" by (simp only: not_le)
      then have "\<not> reserve ?irr raw \<le> standardFee" using le by blast
      then have "lessor_balance c w l =
               ([Call_getAvailableWavesBalance 1 (addr l),
                 Log ''[INFO] Balance of lessor account '%s': %s'',
                 Log ''[INFO] Balance available for leasing: %s''],
                Inr (limit (testRun c) (reserve ?irr raw)))"
        by (simp add: lessor_balance_answer [OF a])
      then show "\<exists>balance.
             lessor_balance c w l =
               ([Call_getAvailableWavesBalance 1 (addr l),
                 Log ''[INFO] Balance of lessor account '%s': %s'',
                 Log ''[INFO] Balance available for leasing: %s''],
                Inr balance) \<and>
             uint balance =
               (if testRun c \<and> uint waves < uint raw - uint ?irr
                then uint waves else uint raw - uint ?irr)"
        using lim [OF b] by blast
    qed
  qed
  show ?thesis
    using r below eq g l by (intro conjI impI) (blast+)
qed

theorem insufficient_balance_check_witness:
  "0 \<le> sint (irreducibleBalance example_flags) \<and>
   uint (100000000 :: u64) - uint (irreducibleBalance example_flags) < 2 ^ 63 \<and>
   not_enough_balance
     (generator_balance example_flags (example_world 100000000 0 100000000 0) zero_account) \<and>
   not_enough_balance
     (lessor_balance example_flags (example_world 100000000 0 100000000 0) zero_account) \<and>
   not_enough_balance
     (generator_balance (example_flags \<lparr> irreducibleBalance := 0 \<rparr>)
        (example_world standardFee 0 standardFee 0) zero_account) \<and>
   not_enough_balance
     (lessor_balance (example_flags \<lparr> irreducibleBalance := 0 \<rparr>)
        (example_world standardFee 0 standardFee 0) zero_account) \<and>
   generator_balance example_flags (example_world 150000000 0 150000000 0) zero_account
     = ([Call_getAvailableWavesBalance 0 (addr zero_account),
         Log ''[INFO] Balance of generation account '%s': %s'',
         Log ''[INFO] Balance available for transfer: %s''],
        Inr 50000000)"
proof -
  have h1: "0 \<le> sint (irreducibleBalance example_flags)"
    by (simp add: example_defs waves_def)
  have h2: "irreducibleBalance example_flags = 0 \<or>
            uint (100000000 :: u64) - uint (irreducibleBalance example_flags) < 2 ^ 63"
    and h2': "uint (100000000 :: u64) - uint (irreducibleBalance example_flags) < 2 ^ 63"
    and h3: "irreducibleBalance example_flags = 0 \<or>
            uint (150000000 :: u64) - uint (irreducibleBalance example_flags) < 2 ^ 63"
    by (simp_all add: example_defs waves_def)
  have k1: "0 \<le> sint (irreducibleBalance (example_flags \<lparr> irreducibleBalance := 0 \<rparr>))"
    and k2: "irreducibleBalance (example_flags \<lparr> irreducibleBalance := 0 \<rparr>) = 0 \<or>
             uint standardFee - uint (irreducibleBalance (example_flags \<lparr> irreducibleBalance := 0 \<rparr>))
               < 2 ^ 63"
    by simp_all
  have a0: "Addresses_BalanceDetails (example_world 100000000 0 100000000 0) 0 (addr zero_account)
              = Inr 100000000"
    and a1: "Addresses_BalanceDetails (example_world 100000000 0 100000000 0) 1 (addr zero_account)
              = Inr 100000000"
    and b0: "Addresses_BalanceDetails (example_world standardFee 0 standardFee 0) 0 (addr zero_account)
              = Inr standardFee"
    and b1: "Addresses_BalanceDetails (example_world standardFee 0 standardFee 0) 1 (addr zero_account)
              = Inr standardFee"
    and c0: "Addresses_BalanceDetails (example_world 150000000 0 150000000 0) 0 (addr zero_account)
              = Inr 150000000"
    by (simp_all add: example_world_def)
  have z: "irreducibleBalance (example_flags \<lparr> irreducibleBalance := 0 \<rparr>) = 0"
    by simp
  have le: "uint (100000000 :: u64) \<le> uint (irreducibleBalance example_flags)"
    by (simp add: example_defs waves_def)
  have gt: "uint standardFee < max 0 (uint (150000000 :: u64) - uint (irreducibleBalance example_flags))"
    by (simp add: example_defs waves_def standardFee_def)
  have v: "(if testRun example_flags \<and>
               uint waves < uint (150000000 :: u64) - uint (irreducibleBalance example_flags)
            then uint waves
            else uint (150000000 :: u64) - uint (irreducibleBalance example_flags)) = 50000000"
    by (simp add: example_defs waves_def)
  have e: "\<And>a::u64. uint a = 50000000 \<longleftrightarrow> a = 50000000"
    using word_uint_eq_iff [of _ "50000000::u64"] by simp
  note t1 = insufficient_balance_check [OF h1 h2, of "example_world 100000000 0 100000000 0"
      zero_account zero_account]
  note t2 = insufficient_balance_check [OF k1 k2, of "example_world standardFee 0 standardFee 0"
      zero_account zero_account]
  note t3 = insufficient_balance_check [OF h1 h3, of "example_world 150000000 0 150000000 0"
      zero_account zero_account]
  have "generator_balance example_flags (example_world 150000000 0 150000000 0) zero_account
     = ([Call_getAvailableWavesBalance 0 (addr zero_account),
         Log ''[INFO] Balance of generation account '%s': %s'',
         Log ''[INFO] Balance available for transfer: %s''],
        Inr 50000000)"
    using t3 c0 gt unfolding v e by blast
  moreover have "not_enough_balance
     (generator_balance example_flags (example_world 100000000 0 100000000 0) zero_account) \<and>
   not_enough_balance
     (lessor_balance example_flags (example_world 100000000 0 100000000 0) zero_account)"
    using t1 a0 a1 le by blast
  moreover have "not_enough_balance
     (generator_balance (example_flags \<lparr> irreducibleBalance := 0 \<rparr>)
        (example_world standardFee 0 standardFee 0) zero_account) \<and>
   not_enough_balance
     (lessor_balance (example_flags \<lparr> irreducibleBalance := 0 \<rparr>)
        (example_world standardFee 0 standardFee 0) zero_account)"
    using t2 b0 b1 z by blast
  ultimately show ?thesis using h1 h2' by blast
qed

text \<open>
  C3 fails as stated, for every raw balance: with a raw balance of \<open>2 ^ 64 - 1\<close> and an
  irreducible balance of 1 the difference, clamped at zero, is \<open>2 ^ 64 - 2\<close>, far above the
  standard fee, and the run fails with \<open>Not enough balance\<close> all the same, because the
  difference is negative as an \<open>int64\<close>.
\<close>

theorem insufficient_balance_check_counterexample:
  "\<not> max 0 (uint (18446744073709551615 :: u64) - uint (1 :: u64)) \<le> uint standardFee \<and>
   generator_balance (example_flags \<lparr> irreducibleBalance := 1 \<rparr>)
     (example_world 18446744073709551615 0 0 0) zero_account
     = ([Call_getAvailableWavesBalance 0 (addr zero_account),
         Log ''[INFO] Balance of generation account '%s': %s'',
         Log ''[ERROR] Not enough balance on generator's account''],
        Inl (Return (Some errFailure)))"
  by (simp add: generator_balance_def getAvailableWavesBalance_def step_defs Let_def reserve_def
        limit_def waves_def standardFee_def example_defs)

text \<open>
  C10, amended: when the irreducible balance is positive and the raw balance exceeds it by
  \<open>2 ^ 63\<close> or more, the raw balance and the difference are negative as \<open>int64\<close>, the
  balance is clamped to zero and the run fails with \<open>Not enough balance\<close>, although the
  raw balance is above the irreducible balance plus the standard fee.
\<close>

theorem int64_reservation_clamps:
  assumes "0 < sint (irreducibleBalance c)"
    and "2 ^ 63 \<le> uint raw - uint (irreducibleBalance c)"
  shows "sint raw < 0 \<and> sint (raw - irreducibleBalance c) < 0 \<and>
         reserve (irreducibleBalance c) raw = 0 \<and>
         uint (irreducibleBalance c) + uint standardFee < uint raw \<and>
         (Addresses_BalanceDetails w 0 (addr g) = Inr raw \<longrightarrow>
            not_enough_balance (generator_balance c w g)) \<and>
         (Addresses_BalanceDetails w 1 (addr l) = Inr raw \<longrightarrow>
            not_enough_balance (lessor_balance c w l))"
proof -
  let ?irr = "irreducibleBalance c"
  have i: "0 < uint ?irr" "uint ?irr < 9223372036854775808"
    using assms(1) by (simp_all add: sint_pos_iff)
  have d: "9223372036854775808 \<le> uint raw - uint ?irr" using assms(2) by simp
  have le: "uint ?irr \<le> uint raw" using d i by linarith
  have u: "uint (raw - ?irr) = uint raw - uint ?irr" using le by (simp add: uint_sub_u64)
  have n1: "sint raw < 0" using d i by (simp add: sint_neg_iff)
  have n2: "sint (raw - ?irr) < 0" using d u by (simp add: sint_neg_iff)
  have "uint (reserve ?irr raw) = 0" using i d by (simp add: reserve_int)
  then have r: "reserve ?irr raw = 0" by (simp add: uint_0_iff)
  have big: "uint ?irr + uint standardFee < uint raw"
    using d i by (simp add: standardFee_def)
  have g: "not_enough_balance (generator_balance c w g)"
    if "Addresses_BalanceDetails w 0 (addr g) = Inr raw"
    by (simp add: generator_balance_answer [OF that] not_enough_balance_def r)
  have l: "not_enough_balance (lessor_balance c w l)"
    if "Addresses_BalanceDetails w 1 (addr l) = Inr raw"
    by (simp add: lessor_balance_answer [OF that] not_enough_balance_def r)
  show ?thesis using n1 n2 r big g l by blast
qed

theorem int64_reservation_clamps_witness:
  "0 < sint (irreducibleBalance example_flags) \<and>
   (2 ^ 63 :: int) \<le> uint (18446744073709551615 :: u64) - uint (irreducibleBalance example_flags) \<and>
   reserve (irreducibleBalance example_flags) 18446744073709551615 = 0 \<and>
   not_enough_balance
     (generator_balance example_flags (example_world 18446744073709551615 0 18446744073709551615 0)
        zero_account) \<and>
   not_enough_balance
     (lessor_balance example_flags (example_world 18446744073709551615 0 18446744073709551615 0)
        zero_account)"
proof -
  have h1: "0 < sint (irreducibleBalance example_flags)"
    by (simp add: example_defs waves_def)
  have h2: "(2 ^ 63 :: int) \<le> uint (18446744073709551615 :: u64) - uint (irreducibleBalance example_flags)"
    by (simp add: example_defs waves_def)
  have a0: "Addresses_BalanceDetails (example_world 18446744073709551615 0 18446744073709551615 0) 0
              (addr zero_account) = Inr 18446744073709551615"
    and a1: "Addresses_BalanceDetails (example_world 18446744073709551615 0 18446744073709551615 0) 1
              (addr zero_account) = Inr 18446744073709551615"
    by (simp_all add: example_world_def)
  from int64_reservation_clamps [OF h1 h2,
      of "example_world 18446744073709551615 0 18446744073709551615 0" zero_account zero_account]
  show ?thesis using h1 h2 a0 a1 by blast
qed

text \<open>
  C10 fails as stated, for every raw balance from \<open>2 ^ 63\<close> on: at \<open>2 ^ 63\<close> with
  the default irreducible balance of one WAVES the \<open>int64\<close> subtraction wraps to a
  positive number, which is the true difference, and the run goes on.
\<close>

theorem int64_reservation_clamps_counterexample:
  "(2 ^ 63 :: int) \<le> uint (9223372036854775808 :: u64) \<and>
   0 < sint (irreducibleBalance example_flags) \<and>
   reserve (irreducibleBalance example_flags) 9223372036854775808 = 9223372036754775808 \<and>
   snd (generator_balance example_flags (example_world 9223372036854775808 0 0 0) zero_account)
     = Inr 9223372036754775808"
  by (simp add: generator_balance_def getAvailableWavesBalance_def step_defs Let_def reserve_def
        limit_def waves_def standardFee_def example_defs)

section \<open>The confirmation tracker\<close>

text \<open>
  C6: \<open>track\<close> polls without a bound, and its four ends are told apart by the answers.
  It returns \<open>nil\<close> exactly when, after answers that are all "not yet found" (a response
  with a status other than 200, the run not cancelled), an answer is found (status 200).
  It returns the cancellation error exactly when, after such answers, the call is
  cancelled. It never returns exactly when every answer is "not yet found". It ends with
  a panic exactly when, after such answers, there is no response at all (a transport
  error: \<open>rsp\<close> is \<open>nil\<close> and reading its status panics). There is no other end.
\<close>

theorem track_polls_until_found_or_cancelled:
  "(snd (track w i) = Inr None \<longleftrightarrow>
      (\<exists>n. (\<forall>k<n. not_yet_found (Transactions_Info w i k)) \<and> found (Transactions_Info w i n))) \<and>
   (snd (track w i) = Inr (Some ContextCanceled) \<longleftrightarrow>
      (\<exists>n. (\<forall>k<n. not_yet_found (Transactions_Info w i k)) \<and>
           cancelled (Transactions_Info w i n))) \<and>
   (snd (track w i) = Inl Hang \<longleftrightarrow> (\<forall>k. not_yet_found (Transactions_Info w i k))) \<and>
   (snd (track w i) = Inl Panic \<longleftrightarrow>
      (\<exists>n. (\<forall>k<n. not_yet_found (Transactions_Info w i k)) \<and>
           no_response (Transactions_Info w i n))) \<and>
   (snd (track w i) = Inr None \<or> snd (track w i) = Inr (Some ContextCanceled) \<or>
    snd (track w i) = Inl Hang \<or> snd (track w i) = Inl Panic)"
proof -
  let ?info = "Transactions_Info w i"
  let ?F = "\<exists>n. (\<forall>k<n. not_yet_found (?info k)) \<and> found (?info n)"
  let ?C = "\<exists>n. (\<forall>k<n. not_yet_found (?info k)) \<and> cancelled (?info n)"
  let ?H = "\<forall>k. not_yet_found (?info k)"
  let ?P = "\<exists>n. (\<forall>k<n. not_yet_found (?info k)) \<and> no_response (?info n)"
  let ?s = "snd (track w i)"
  have f: "?s = Inr None" if ?F
  proof -
    from that obtain n where n: "\<forall>k<n. not_yet_found (?info k)" "found (?info n)" by blast
    then have "track_loop ?info 0 = Some (TrackReturn None)"
      using track_loop_from_start [of n ?info] track_loop_found [of ?info n] by simp
    then show ?thesis by (simp add: snd_track)
  qed
  have c: "?s = Inr (Some ContextCanceled)" if ?C
  proof -
    from that obtain n where n: "\<forall>k<n. not_yet_found (?info k)" "cancelled (?info n)" by blast
    then have "track_loop ?info 0 = Some (TrackReturn (Some ContextCanceled))"
      using track_loop_from_start [of n ?info] track_loop_cancelled [of ?info n] by simp
    then show ?thesis by (simp add: snd_track)
  qed
  have p: "?s = Inl Panic" if ?P
  proof -
    from that obtain n where n: "\<forall>k<n. not_yet_found (?info k)" "no_response (?info n)" by blast
    then have "track_loop ?info 0 = Some TrackPanic"
      using track_loop_from_start [of n ?info] track_loop_no_response [of ?info n] by simp
    then show ?thesis by (simp add: snd_track)
  qed
  have h: "?s = Inl Hang" if ?H
    using that by (simp add: snd_track track_loop_never)
  from answers_end [of ?info] have e: "?H \<or> ?F \<or> ?C \<or> ?P" by blast
  show ?thesis
    by (rule four_ends [where s = "?s", OF f c h p e]) simp_all
qed

theorem track_polls_until_found_or_cancelled_witness:
  "snd (track (example_world 0 0 0 0) [1]) = Inr None \<and>
   snd (track (example_world 0 0 0 0 \<lparr> Transactions_Info := cancelled_at_second \<rparr>) [1])
     = Inr (Some ContextCanceled) \<and>
   snd (track (example_world 0 0 0 0 \<lparr> Transactions_Info := never_found \<rparr>) [1]) = Inl Hang \<and>
   snd (track (example_world 0 0 0 0 \<lparr> Transactions_Info := transport_error \<rparr>) [1]) = Inl Panic"
proof -
  let ?w = "example_world 0 0 0 0"
  have f: "(\<forall>k<2. not_yet_found (Transactions_Info ?w [1] k)) \<and> found (Transactions_Info ?w [1] 2)"
    by (simp add: example_world_def not_yet_found_def found_def cancelled_def)
  have c: "(\<forall>k<1. not_yet_found
              (Transactions_Info (?w \<lparr> Transactions_Info := cancelled_at_second \<rparr>) [1] k)) \<and>
           cancelled (Transactions_Info (?w \<lparr> Transactions_Info := cancelled_at_second \<rparr>) [1] 1)"
    by (simp add: cancelled_at_second_def not_yet_found_def cancelled_def)
  have n: "\<forall>k. not_yet_found (Transactions_Info (?w \<lparr> Transactions_Info := never_found \<rparr>) [1] k)"
    by (simp add: never_found_def not_yet_found_def cancelled_def)
  have p: "(\<forall>k<0. not_yet_found
              (Transactions_Info (?w \<lparr> Transactions_Info := transport_error \<rparr>) [1] k)) \<and>
           no_response (Transactions_Info (?w \<lparr> Transactions_Info := transport_error \<rparr>) [1] 0)"
    by (simp add: transport_error_def no_response_def cancelled_def)
  note t1 = track_polls_until_found_or_cancelled [of ?w "[1]"]
  note t2 = track_polls_until_found_or_cancelled
    [of "?w \<lparr> Transactions_Info := cancelled_at_second \<rparr>" "[1]"]
  note t3 = track_polls_until_found_or_cancelled
    [of "?w \<lparr> Transactions_Info := never_found \<rparr>" "[1]"]
  note t4 = track_polls_until_found_or_cancelled
    [of "?w \<lparr> Transactions_Info := transport_error \<rparr>" "[1]"]
  have 1: "snd (track ?w [1]) = Inr None"
    by (rule iffD2 [OF conjunct1 [OF t1]]) (rule exI [of _ 2], rule f)
  have 2: "snd (track (?w \<lparr> Transactions_Info := cancelled_at_second \<rparr>) [1])
             = Inr (Some ContextCanceled)"
    by (rule iffD2 [OF conjunct1 [OF conjunct2 [OF t2]]]) (rule exI [of _ 1], rule c)
  have 3: "snd (track (?w \<lparr> Transactions_Info := never_found \<rparr>) [1]) = Inl Hang"
    by (rule iffD2 [OF conjunct1 [OF conjunct2 [OF conjunct2 [OF t3]]]]) (rule n)
  have 4: "snd (track (?w \<lparr> Transactions_Info := transport_error \<rparr>) [1]) = Inl Panic"
    by (rule iffD2 [OF conjunct1 [OF conjunct2 [OF conjunct2 [OF conjunct2 [OF t4]]]]])
      (rule exI [of _ 0], rule p)
  show ?thesis using 1 2 3 4 by (intro conjI)
qed

section \<open>The leasing threshold\<close>

text \<open>
  C4, amended: with a threshold \<open>t > 0\<close> and an amount below it, the run returns \<open>nil\<close>
  after one log line, with no lease built or sent. With an amount of at least \<open>t\<close> (equal
  included), or with \<open>t = 0\<close>, the lease is built and \<open>Sign\<close> is called; it is broadcast
  exactly when the run is not a dry run and the signing succeeds.
\<close>

theorem leasing_threshold_gate:
  "(0 < sint (leasingThreshold c) \<and> amount < leasingThreshold c \<longrightarrow>
      send_lease c w scheme txVer lsk lessor rcp amount fee
        = ([Log ''[INFO] Leasing amount %d is less than threshold %d''], Inl (Return None))) \<and>
   (0 < sint (leasingThreshold c) \<and> leasingThreshold c \<le> amount \<or> leasingThreshold c = 0 \<longrightarrow>
      Built (LeaseWithProofs txVer (pk lessor) (recipient rcp) amount fee (timestamp w 1))
        \<in> set (fst (send_lease c w scheme txVer lsk lessor rcp amount fee)) \<and>
      Call_Sign (LeaseWithProofs txVer (pk lessor) (recipient rcp) amount fee (timestamp w 1))
          (Sign w scheme lsk (LeaseWithProofs txVer (pk lessor) (recipient rcp) amount fee (timestamp w 1)))
        \<in> set (fst (send_lease c w scheme txVer lsk lessor rcp amount fee)) \<and>
      (Call_broadcast (LeaseWithProofs txVer (pk lessor) (recipient rcp) amount fee (timestamp w 1))
          \<in> set (fst (send_lease c w scheme txVer lsk lessor rcp amount fee))
        \<longleftrightarrow> \<not> dryRun c \<and>
            Sign w scheme lsk (LeaseWithProofs txVer (pk lessor) (recipient rcp) amount fee (timestamp w 1))
              \<noteq> None))"
proof (intro conjI impI)
  let ?lease = "LeaseWithProofs txVer (pk lessor) (recipient rcp) amount fee (timestamp w 1)"
  let ?t = "fst (send_lease c w scheme txVer lsk lessor rcp amount fee)"
  {
    assume "0 < sint (leasingThreshold c) \<and> amount < leasingThreshold c"
    then show "send_lease c w scheme txVer lsk lessor rcp amount fee
        = ([Log ''[INFO] Leasing amount %d is less than threshold %d''], Inl (Return None))"
      by (simp add: send_lease_def step_defs)
  }
  assume a: "0 < sint (leasingThreshold c) \<and> leasingThreshold c \<le> amount \<or> leasingThreshold c = 0"
  then have go: "\<not> (0 < sint (leasingThreshold c) \<and> amount < leasingThreshold c)"
    by auto
  show "Built ?lease \<in> set ?t"
    unfolding send_lease_def if_not_P [OF go] by (simp add: Let_def fst_seq_emit)
  show "Call_Sign ?lease (Sign w scheme lsk ?lease) \<in> set ?t"
    unfolding send_lease_def if_not_P [OF go] by (simp add: Let_def fst_seq_emit)
  show "Call_broadcast ?lease \<in> set ?t \<longleftrightarrow> \<not> dryRun c \<and> Sign w scheme lsk ?lease \<noteq> None"
    unfolding send_lease_def if_not_P [OF go]
    by (auto simp: Let_def step_defs broadcast_def track_def
          split: option.splits sum.splits track_end.splits)
qed

theorem leasing_threshold_gate_witness:
  "0 < sint (leasingThreshold (example_flags \<lparr> leasingThreshold := 50000000 \<rparr>)) \<and>
   (49999999 :: u64) < leasingThreshold (example_flags \<lparr> leasingThreshold := 50000000 \<rparr>) \<and>
   send_lease (example_flags \<lparr> leasingThreshold := 50000000 \<rparr>) (example_world 0 0 0 0) 87 3 [2]
       zero_account zero_account 49999999 100000
     = ([Log ''[INFO] Leasing amount %d is less than threshold %d''], Inl (Return None)) \<and>
   leasingThreshold (example_flags \<lparr> leasingThreshold := 50000000 \<rparr>) \<le> 50000000 \<and>
   Call_broadcast
       (LeaseWithProofs 3 (pk zero_account) (recipient zero_account) 50000000 100000
          (timestamp (example_world 0 0 0 0) 1))
     \<in> set (fst (send_lease (example_flags \<lparr> leasingThreshold := 50000000 \<rparr>)
                    (example_world 0 0 0 0) 87 3 [2] zero_account zero_account 50000000 100000))"
proof -
  let ?c = "example_flags \<lparr> leasingThreshold := 50000000 \<rparr>"
  let ?w = "example_world 0 0 0 0"
  have h1: "0 < sint (leasingThreshold ?c)" by simp
  have h2: "(49999999 :: u64) < leasingThreshold ?c" by simp
  have h3: "leasingThreshold ?c \<le> 50000000" by simp
  have h4: "\<not> dryRun ?c" by (simp add: example_defs)
  have h5: "Sign ?w 87 [2]
              (LeaseWithProofs 3 (pk zero_account) (recipient zero_account) 50000000 100000
                 (timestamp ?w 1)) \<noteq> None"
    by (simp add: example_world_def)
  show ?thesis
    using leasing_threshold_gate [of ?c 49999999 ?w 87 3 "[2]" zero_account zero_account 100000]
      leasing_threshold_gate [of ?c 50000000 ?w 87 3 "[2]" zero_account zero_account 100000]
      h1 h2 h3 h4 h5
    by blast
qed

text \<open>
  C4 fails as stated: in a dry run an amount equal to the threshold is built and signed
  but not broadcast.
\<close>

theorem leasing_threshold_gate_counterexample:
  "0 < sint (leasingThreshold (example_flags \<lparr> leasingThreshold := 50000000, dryRun := True \<rparr>)) \<and>
   leasingThreshold (example_flags \<lparr> leasingThreshold := 50000000, dryRun := True \<rparr>) \<le> 50000000 \<and>
   Call_broadcast
       (LeaseWithProofs 3 (pk zero_account) (recipient zero_account) 50000000 100000
          (timestamp (example_world 0 0 0 0) 1))
     \<notin> set (fst (send_lease (example_flags \<lparr> leasingThreshold := 50000000, dryRun := True \<rparr>)
                    (example_world 0 0 0 0) 87 3 [2] zero_account zero_account 50000000 100000))"
  by (simp add: send_lease_def Let_def step_defs example_defs)

section \<open>Malformed flags\<close>

text \<open>
  C9, at inputs where the code does not do what the claim says. The claim: every malformed
  configuration value gives the invalid-parameters result (exit status 2) before any call
  to the node. A malformed lessor public key and a malformed leasing address give
  \<open>errFailure\<close>, exit status 70. After a malformed node URL the run logs the error, does
  not return, and calls \<open>nodeClient\<close> with the empty string; it ends with status 70.
\<close>

theorem malformed_flags_exit_codes:
  "NewPublicKeyFromBase58 (example_world 300000000 0 300000000 0) ''garbage'' = None \<and>
   snd (main (example_flags \<lparr> lessorPK := ''garbage'' \<rparr>) (example_world 300000000 0 300000000 0))
     = Exit 70 \<and>
   NewAddressFromString (example_world 300000000 0 300000000 0) ''garbage'' = None \<and>
   snd (main (example_flags \<lparr> leasingAddress := ''garbage'' \<rparr>)
          (example_world 300000000 0 300000000 0))
     = Exit 70 \<and>
   normalizeURL (example_world 300000000 0 300000000 0) ''ftp://node'' = Inl OtherErr \<and>
   main (example_flags \<lparr> nodeURL := ''ftp://node'' \<rparr>) (example_world 300000000 0 300000000 0)
     = ([Log ''[ERROR] Invalid node's URL '%s': %v'',
         Log ''[INFO] No different lessor public key is given'',
         Log ''[INFO] No different leasing address is given'',
         Log ''[INFO] Accounts irreducible balance set to %s'',
         Call_nodeClient [],
         Log ''[ERROR] Failed to connect to node at '%s': %v''],
        Exit 70)"
  by code_simp

section \<open>The modes of a run\<close>

text \<open>
  C5: in a run with the transfer-only flag no event of steps 6 and 7 occurs (no second
  query of a balance or of an extra fee, no lease built, signed, rendered, broadcast or
  tracked), and when the flags are accepted and the transfer phase completes, the run
  logs \<open>OK\<close> and returns \<open>nil\<close> at once.
\<close>

theorem transfer_only_stops_after_transfer:
  assumes "transferOnly c"
  shows "(\<forall>e \<in> set (fst (run c w)). \<not> lease_event e) \<and>
         (\<forall>p r. snd (parse_flags c w) = Inr p \<and> snd (transfer_phase c w p) = Inr r \<longrightarrow>
            run c w = (fst (parse_flags c w) @ fst (transfer_phase c w p) @ [Log ''[INFO] OK''],
                       Return None))"
proof
  show "\<forall>e \<in> set (fst (run c w)). \<not> lease_event e"
    using run_steps_no_lease [OF assms, of w] by (simp add: fst_run every_def)
  show "\<forall>p r. snd (parse_flags c w) = Inr p \<and> snd (transfer_phase c w p) = Inr r \<longrightarrow>
          run c w = (fst (parse_flags c w) @ fst (transfer_phase c w p) @ [Log ''[INFO] OK''],
                     Return None)"
    using assms by (simp add: run_def run_steps_def step_defs)
qed

theorem transfer_only_stops_after_transfer_witness:
  "transferOnly (example_flags \<lparr> transferOnly := True, recipientAddress := ''address'' \<rparr>) \<and>
   snd (run (example_flags \<lparr> transferOnly := True, recipientAddress := ''address'' \<rparr>)
          (example_world 300000000 0 300000000 0)) = Return None \<and>
   filter lease_event
     (fst (run (example_flags \<lparr> transferOnly := True, recipientAddress := ''address'' \<rparr>)
             (example_world 300000000 0 300000000 0))) = []"
proof -
  let ?c = "example_flags \<lparr> transferOnly := True, recipientAddress := ''address'' \<rparr>"
  let ?w = "example_world 300000000 0 300000000 0"
  have h: "transferOnly ?c" by simp
  have r: "snd (run ?c ?w) = Return None" by code_simp
  have "\<forall>e \<in> set (fst (run ?c ?w)). \<not> lease_event e"
    using transfer_only_stops_after_transfer [OF h, of ?w] by blast
  then have "filter lease_event (fst (run ?c ?w)) = []"
    by (simp add: filter_empty_conv)
  then show ?thesis using h r by blast
qed



text \<open>
  C8, amended: in a run with the dry-run flag neither \<open>broadcast\<close> nor \<open>track\<close> is
  called, and every transaction whose signing succeeded is given to \<open>json.Marshal\<close>; when
  that returns a JSON text the text is logged, and when it fails the run returns
  \<open>errFailure\<close>.
\<close>

theorem dry_run_only_renders:
  assumes "dryRun c"
  shows "(\<forall>e \<in> set (fst (run c w)). \<not> sends e) \<and>
         signed_rendered w (fst (run c w)) (snd (run c w) = Return (Some errFailure))"
  using run_steps_dry [OF assms, of w] by (simp add: fst_run snd_run_failed dry_step_def)

theorem dry_run_only_renders_witness:
  "dryRun (example_flags \<lparr> dryRun := True \<rparr>) \<and>
   Call_Marshal (TransferWithProofs 3 [10, 1] 1700000000000 199900000 100000 [87, 10, 2])
     \<in> set (fst (run (example_flags \<lparr> dryRun := True \<rparr>) (example_world 300000000 0 300000000 0))) \<and>
   render_line (TransferWithProofs 3 [10, 1] 1700000000000 199900000 100000 [87, 10, 2]) ''{}''
     \<in> set (fst (run (example_flags \<lparr> dryRun := True \<rparr>) (example_world 300000000 0 300000000 0))) \<and>
   Call_Marshal (LeaseWithProofs 3 [10, 2] [87, 10, 1] 199900000 100000 1700000000000)
     \<in> set (fst (run (example_flags \<lparr> dryRun := True \<rparr>) (example_world 300000000 0 300000000 0))) \<and>
   render_line (LeaseWithProofs 3 [10, 2] [87, 10, 1] 199900000 100000 1700000000000) ''{}''
     \<in> set (fst (run (example_flags \<lparr> dryRun := True \<rparr>) (example_world 300000000 0 300000000 0))) \<and>
   filter sends
     (fst (run (example_flags \<lparr> dryRun := True \<rparr>) (example_world 300000000 0 300000000 0))) = [] \<and>
   snd (run (example_flags \<lparr> dryRun := True \<rparr>)
          (example_world 300000000 0 300000000 0 \<lparr> json_Marshal := \<lambda>tx. None \<rparr>))
     = Return (Some errFailure)"
proof -
  let ?c = "example_flags \<lparr> dryRun := True \<rparr>"
  let ?w = "example_world 300000000 0 300000000 0"
  let ?v = "?w \<lparr> json_Marshal := \<lambda>tx. None \<rparr>"
  let ?T = "TransferWithProofs 3 [10, 1] 1700000000000 199900000 100000 [87, 10, 2]"
  let ?L = "LeaseWithProofs 3 [10, 2] [87, 10, 1] 199900000 100000 1700000000000"
  have h: "dryRun ?c" by simp
  have s: "Call_Sign ?T (Some [3, 1]) \<in> set (fst (run ?c ?w)) \<and>
           Call_Sign ?L (Some [3, 2]) \<in> set (fst (run ?c ?w))"
    by code_simp
  have s': "Call_Sign ?T (Some [3, 1]) \<in> set (fst (run ?c ?v))"
    by code_simp
  have j: "json_Marshal ?w ?T = Some ''{}''" "json_Marshal ?w ?L = Some ''{}''"
    "json_Marshal ?v ?T = None"
    by (simp_all add: example_world_def)
  note t = dry_run_only_renders [OF h, of ?w]
  note u = dry_run_only_renders [OF h, of ?v]
  from t have f: "filter sends (fst (run ?c ?w)) = []" by (simp add: filter_empty_conv)
  note a = signed_renderedD [OF conjunct2 [OF t] conjunct1 [OF s]]
  note b = signed_renderedD [OF conjunct2 [OF t] conjunct2 [OF s]]
  note c = signed_renderedD [OF conjunct2 [OF u] s']
  show ?thesis using h f a b c by (simp add: j)
qed

text \<open>
  C8 fails as stated when \<open>json.Marshal\<close> fails: the transfer is signed but no JSON text
  is logged; the run logs the error and returns \<open>errFailure\<close>.
\<close>

theorem dry_run_only_renders_counterexample:
  "run (example_flags \<lparr> dryRun := True \<rparr>)
     (example_world 300000000 0 300000000 0 \<lparr> json_Marshal := \<lambda>tx. None \<rparr>)
   = ([Log ''[INFO] No different lessor public key is given'',
       Log ''[INFO] No different leasing address is given'',
       Log ''[INFO] Accounts irreducible balance set to %s'',
       Log ''[INFO] DRY-RUN: No actual transactions will be created'',
       Call_nodeClient ''http://localhost:6869'',
       Log ''[INFO] Successfully connected to %s'',
       Call_getScheme,
       Log ''[INFO] Blockchain scheme: %s'',
       Call_isProtobufActivated,
       Log ''[INFO] Version of transactions to produce: %d'',
       Log ''[INFO] Generating address: %s'',
       Log ''[INFO] Lessor address: %s'',
       Log ''[INFO] Lessor public key: %s'',
       Log ''[INFO] Leasing to address: %s'',
       Call_getAvailableWavesBalance 0 [87, 10, 1],
       Log ''[INFO] Balance of generation account '%s': %s'',
       Log ''[INFO] Balance available for transfer: %s'',
       Call_getExtraFee 0 [87, 10, 1],
       Log ''[INFO] No extra fee on transfer'',
       Built (TransferWithProofs 3 [10, 1] 1700000000000 199900000 100000 [87, 10, 2]),
       Call_Sign (TransferWithProofs 3 [10, 1] 1700000000000 199900000 100000 [87, 10, 2])
         (Some [3, 1]),
       Call_Marshal (TransferWithProofs 3 [10, 1] 1700000000000 199900000 100000 [87, 10, 2]),
       Log ''[ERROR] Failed to make transaction json: %v''],
      Return (Some errFailure))"
  by code_simp

end
